theory Spec2Isabelle
  imports Complex_Main "HOL-Library.Word"
begin

unbundle bit_operations_syntax

section \<open>Numbers\<close>

text \<open>
  A value of the C++ types \<open>float\<close> and \<open>double\<close> is modelled by the real number it
  denotes; infinities, NaN, overflow and subnormal numbers are outside the model. A
  floating literal stands for the binary value the compiler stores, so \<open>0.2f\<close> is
  \<open>13421773 / 2 ^ 26\<close> and not \<open>1 / 5\<close>.

  The double arithmetic of \<open>main\<close> is modelled with its rounding: every operation
  yields the exact result rounded to the nearest double, ties to even (\<open>dbl\<close>), one
  operation at a time; a conversion to \<open>float\<close> rounds the same way to 24 bits
  (\<open>flt\<close>). The single-precision arithmetic inside camera.cpp is exact in the model:
  what is proved of the camera are order properties and the choice of a branch, and
  comparisons are exact in the source as well.

  The exponent of \<open>dbl\<close> and \<open>flt\<close> is not bounded: they agree with the machine
  where the machine result is a normal number.

  Where the source divides, the model divides in HOL, where \<open>x / 0 = 0\<close>; the source
  yields an infinity or a NaN there. So every theorem below whose statement depends on a
  quotient assumes the divisor is not zero, except for the average of the summary file,
  which is an option.
\<close>

text \<open>The number of digits of \<open>n\<close> in base \<open>b\<close>.\<close>

function digits :: "nat \<Rightarrow> nat \<Rightarrow> nat" where
  "digits b n = (if n = 0 \<or> b < 2 then 0 else Suc (digits b (n div b)))"
  by pat_completeness auto
termination
  by (relation "measure snd") auto

declare digits.simps [simp del]

text \<open>For \<open>x > 0\<close>, the exponent \<open>e\<close> with \<open>b ^ e \<le> x < b ^ (e + 1)\<close>.\<close>

definition floor_log :: "nat \<Rightarrow> real \<Rightarrow> int" where
  "floor_log b x =
     (if 1 \<le> x then int (digits b (nat \<lfloor>x\<rfloor>)) - 1
      else - int (digits b (nat (\<lceil>1 / x\<rceil> - 1))))"

definition scale_pow :: "nat \<Rightarrow> int \<Rightarrow> real" where
  "scale_pow b k = (if 0 \<le> k then real b ^ nat k else 1 / real b ^ nat (- k))"

text \<open>The nearest integer, the even one of the two when both are equally near.\<close>

definition round_even :: "real \<Rightarrow> int" where
  "round_even y =
     (let f = \<lfloor>y\<rfloor>; d = y - of_int f
      in if d < 1 / 2 then f else if 1 / 2 < d then f + 1 else if even f then f else f + 1)"

text \<open>\<open>x\<close> rounded to \<open>p\<close> significant digits in base \<open>b\<close>.\<close>

definition round_sig :: "nat \<Rightarrow> nat \<Rightarrow> real \<Rightarrow> real" where
  "round_sig b p x =
     (if x = 0 then 0
      else let u = scale_pow b (floor_log b \<bar>x\<bar> - int p + 1)
           in sgn x * of_int (round_even (\<bar>x\<bar> / u)) * u)"

text \<open>
  Rounding to \<open>double\<close> (53 bits) and to \<open>float\<close> (24 bits). \<open>sig6\<close> is the number
  that the text written by \<open>operator<<\<close> for a double denotes: the stream has its default
  precision, 6 significant decimal digits.
\<close>

definition dbl :: "real \<Rightarrow> real" where
  "dbl = round_sig 2 53"

definition flt :: "real \<Rightarrow> real" where
  "flt = round_sig 2 24"

definition sig6 :: "real \<Rightarrow> real" where
  "sig6 = round_sig 10 6"

text \<open>The single-precision literals of the source, as the exact values they denote.\<close>

definition f_0_2 :: real where \<comment> \<open>\<open>0.2f\<close>\<close>
  "f_0_2 = 13421773 / 67108864"

definition f_0_01 :: real where \<comment> \<open>\<open>0.01f\<close>\<close>
  "f_0_01 = 5368709 / 536870912"

definition f_0_07 :: real where \<comment> \<open>\<open>0.07f\<close>\<close>
  "f_0_07 = 9395241 / 134217728"

definition f_0_0007 :: real where \<comment> \<open>\<open>0.0007f\<close>\<close>
  "f_0_0007 = 3006477 / 4294967296"

definition f_0_8 :: real where \<comment> \<open>\<open>0.8f\<close>\<close>
  "f_0_8 = 13421773 / 16777216"

text \<open>
  DirectXMath (an external library) declares \<open>XM_PI = 3.141592654f\<close> and
  \<open>XM_PIDIV2 = 1.570796327f\<close>; these are the single-precision values.
\<close>

definition XM_PI :: real where
  "XM_PI = 13176795 / 4194304"

definition XM_PIDIV2 :: real where
  "XM_PIDIV2 = 13176795 / 8388608"

text \<open>
  \<open>std::max(a, b)\<close> is \<open>(a < b) ? b : a\<close> and \<open>std::min(a, b)\<close> is
  \<open>(b < a) ? b : a\<close> in the C++ standard library.
\<close>

definition std_max :: "real \<Rightarrow> real \<Rightarrow> real" where
  "std_max a b = (if a < b then b else a)"

definition std_min :: "real \<Rightarrow> real \<Rightarrow> real" where
  "std_min a b = (if b < a then b else a)"

section \<open>The orbit camera (camera.cpp)\<close>

text \<open>
  Vectors and matrices of DirectXMath are kept symbolic: a matrix is the call that built
  it, so the arguments given to \<open>XMMatrixPerspectiveFovRH\<close> can be read back.
  \<open>MatrixUnset\<close> is a matrix member that no call has assigned yet.
  \<open>OrbitEye r lat long\<close> is the vector \<open>UpdateData\<close> computes from the radius and
  the two angles; \<open>components\<close> gives its four numbers.
\<close>

datatype xmvector = XMVectorSet real real real real | OrbitEye real real real

fun components :: "xmvector \<Rightarrow> real \<times> real \<times> real \<times> real" where
  "components (XMVectorSet x y z w) = (x, y, z, w)"
| "components (OrbitEye r lat long) =
     (r * sin lat * cos long, r * cos lat, r * sin lat * sin long, 0)"

datatype xmmatrix =
    MatrixUnset
  | XMMatrixPerspectiveFovRH real real real real
  | XMMatrixLookAtRH xmvector xmvector xmvector
  | XMMatrixMultiply xmmatrix xmmatrix

record OrbitCamera =
  mCenter :: xmvector
  mUp :: xmvector
  mRadius :: real
  mMinRadius :: real
  mMaxRadius :: real
  mLongAngle :: real
  mLatAngle :: real
  mEye :: xmvector
  mView :: xmmatrix
  mProjection :: xmmatrix
  mViewProjection :: xmmatrix

text \<open>The member values the constructor \<open>OrbitCamera::OrbitCamera\<close> sets.\<close>

definition OrbitCamera_new :: OrbitCamera where
  "OrbitCamera_new =
     \<lparr> mCenter = XMVectorSet 0 0 0 0, mUp = XMVectorSet 0 1 0 0,
       mRadius = 1, mMinRadius = 1, mMaxRadius = 1, mLongAngle = 0, mLatAngle = 0,
       mEye = XMVectorSet 0 0 0 0, mView = MatrixUnset, mProjection = MatrixUnset,
       mViewProjection = MatrixUnset \<rparr>"

definition UpdateData :: "OrbitCamera \<Rightarrow> OrbitCamera" where
  "UpdateData c =
     (let eye = OrbitEye (mRadius c) (mLatAngle c) (mLongAngle c);
          view = XMMatrixLookAtRH eye (mCenter c) (mUp c)
      in c\<lparr>mEye := eye, mView := view,
           mViewProjection := XMMatrixMultiply view (mProjection c)\<rparr>)"

definition View :: "OrbitCamera \<Rightarrow> xmvector \<Rightarrow> real \<Rightarrow> real \<Rightarrow> real \<Rightarrow> real \<Rightarrow> real \<Rightarrow> OrbitCamera" where
  "View c center radius minRadius maxRadius longAngle latAngle =
     UpdateData (c\<lparr>mCenter := center, mRadius := radius, mMinRadius := minRadius,
                   mMaxRadius := maxRadius, mLongAngle := longAngle, mLatAngle := latAngle\<rparr>)"

definition Projection :: "OrbitCamera \<Rightarrow> real \<Rightarrow> real \<Rightarrow> OrbitCamera" where
  "Projection c fov aspect =
     (let fovY = (if aspect \<le> 1 then fov else fov / aspect)
      in UpdateData (c\<lparr>mProjection := XMMatrixPerspectiveFovRH fovY aspect 10000 (1 / 10)\<rparr>))"

definition OrbitX :: "OrbitCamera \<Rightarrow> real \<Rightarrow> OrbitCamera" where
  "OrbitX c angle = UpdateData (c\<lparr>mLongAngle := mLongAngle c + angle\<rparr>)"

definition OrbitY :: "OrbitCamera \<Rightarrow> real \<Rightarrow> OrbitCamera" where
  "OrbitY c angle =
     (let limit = XM_PI * f_0_01
      in UpdateData (c\<lparr>mLatAngle :=
           std_max limit (std_min (XM_PI - limit) (mLatAngle c + angle))\<rparr>))"

definition ZoomRadius :: "OrbitCamera \<Rightarrow> real \<Rightarrow> OrbitCamera" where
  "ZoomRadius c delta =
     UpdateData (c\<lparr>mRadius :=
       std_max (mMinRadius c) (std_min (mMaxRadius c) (mRadius c + delta))\<rparr>)"

definition ZoomRadiusScale :: "OrbitCamera \<Rightarrow> real \<Rightarrow> OrbitCamera" where
  "ZoomRadiusScale c delta =
     UpdateData (c\<lparr>mRadius :=
       std_max (mMinRadius c) (std_min (mMaxRadius c) (mRadius c * delta))\<rparr>)"

text \<open>
  The interaction context is a Windows component. What it reports to the registered
  callback is input to the model: an output is a manipulation delta
  (\<open>translationX\<close>, \<open>translationY\<close>, \<open>scale\<close>) or an interaction of another kind.
  The context reports a scale that is not zero.
\<close>

datatype interaction_output =
    INTERACTION_ID_MANIPULATION real real real
  | INTERACTION_ID_OTHER

fun InteractionOutputCallback :: "OrbitCamera \<Rightarrow> interaction_output \<Rightarrow> OrbitCamera" where
  "InteractionOutputCallback c (INTERACTION_ID_MANIPULATION translationX translationY scale) =
     ZoomRadiusScale
       (OrbitY (OrbitX c (translationX * f_0_0007)) (- translationY * f_0_0007))
       (1 / scale)"
| "InteractionOutputCallback c INTERACTION_ID_OTHER = c"

text \<open>The vertical field of view a perspective matrix was built with.\<close>

fun fovY_of :: "xmmatrix \<Rightarrow> real option" where
  "fovY_of (XMMatrixPerspectiveFovRH fovY aspect nearZ farZ) = Some fovY"
| "fovY_of _ = None"

section \<open>Settings, backends and the window procedure (WinWrapper.cpp)\<close>

text \<open>
  Modelled from the spec: \<open>Settings\<close> is declared in a header that is not among the
  sources. The spec lists what it holds (active backend selector, window and render
  resolution, render scale, animate flag, vsync, threading and indirect-draw toggles,
  frame-rate lock flag and target, close threshold, output file names); the record has
  the members that WinWrapper.cpp reads or writes, with the types the code uses them at.
  \<open>renderWidth\<close> and \<open>renderHeight\<close> are \<open>UINT\<close> in the source and hold the truncated
  product of a window extent below \<open>2 ^ 16\<close> and the render scale.
\<close>

record Settings =
  d3d12 :: bool
  windowWidth :: int
  windowHeight :: int
  renderWidth :: nat
  renderHeight :: nat
  renderScale :: real
  animate :: bool
  vsync :: bool
  multithreadedRendering :: bool
  executeIndirect :: bool
  submitRendering :: bool
  lockFrameRate :: bool
  lockedFrameRate :: int
  closeAfterSeconds :: real
  warp :: bool
  windowed :: bool
  statsCsvFileName :: string
  statsSummaryCsvFileName :: string

datatype backend = D3D11 | D3D12

text \<open>
  Modelled from the spec: the two backends (\<open>AsteroidsD3D11::Asteroids\<close> and
  \<open>AsteroidsD3D12::Asteroids\<close>) are not among the sources. Of a backend the model keeps
  the state of its swap chain: \<open>resizeSwapChain\<close> "(re)creates or resizes the output
  surface", \<open>releaseSwapChain\<close> "releases surface resources without destroying the
  backend". A backend that was constructed and never given a surface has \<open>NoSwapChain\<close>.
\<close>

datatype swap_chain = NoSwapChain | SwapChain nat nat | ReleasedSwapChain

text \<open>
  Calls that leave the program, in the order they are made. A \<open>Render\<close> call records
  the swap chain the backend holds when it is called.
\<close>

datatype event =
    ResizeSwapChain_call backend nat nat
  | ReleaseSwapChain_call backend
  | WaitForReadyToRender_call
  | Render_call backend swap_chain real
  | Sleep_call nat
  | ToggleFullscreen_call
  | PostQuitMessage_call int
  | SendMessage_WM_CLOSE
  | DefWindowProc_call
  | Cleanup

datatype fps_text = TextUnset | TextLocked | TextFps real

datatype window_text = TitleInitial | TitleFrame bool real

text \<open>
  A file of comma-separated values: its header line and its rows. A cell holds the number
  that its text denotes, and \<open>None\<close> when the text is that of a NaN or an infinity.
\<close>

datatype csv = Csv string "real option list list"

text \<open>
  The globals of WinWrapper.cpp together with the variables of \<open>main\<close> that live across
  iterations of the main loop. A workload pointer is \<open>None\<close> when it is \<open>nullptr\<close>.
  \<open>files\<close> lists the files written and closed, oldest first.
\<close>

record state =
  gSettings :: Settings
  gCamera :: OrbitCamera
  gWorkloadD3D11 :: "swap_chain option"
  gWorkloadD3D12 :: "swap_chain option"
  fpsControlText :: fps_text
  d3d12ControlVisible :: "bool option"
  d3d11ControlVisible :: "bool option"
  windowText :: window_text
  perfCounterFreq :: "64 word"
  lastPerfCount :: "64 word"
  elapsedTime :: real
  timeInterval :: real
  frameTime :: real
  sumFPS :: real
  currentFPS :: real
  minFPS :: real
  maxFPS :: real
  numFrames :: "64 word"
  fpsHistoryVector :: "(real \<times> real \<times> real) list"
  events :: "event list"
  files :: "(string \<times> csv) list"

text \<open>Calling a method through a null workload pointer is a failure of the run.\<close>

datatype failure = NullWorkload backend

definition workload :: "backend \<Rightarrow> state \<Rightarrow> swap_chain option" where
  "workload b s = (case b of D3D11 \<Rightarrow> gWorkloadD3D11 s | D3D12 \<Rightarrow> gWorkloadD3D12 s)"

definition set_swap_chain :: "backend \<Rightarrow> swap_chain \<Rightarrow> state \<Rightarrow> state" where
  "set_swap_chain b sc s =
     (case b of D3D11 \<Rightarrow> s\<lparr>gWorkloadD3D11 := Some sc\<rparr>
              | D3D12 \<Rightarrow> s\<lparr>gWorkloadD3D12 := Some sc\<rparr>)"

definition ResizeSwapChain :: "backend \<Rightarrow> nat \<Rightarrow> nat \<Rightarrow> state \<Rightarrow> failure + state" where
  "ResizeSwapChain b width height s =
     (case workload b s of
        None \<Rightarrow> Inl (NullWorkload b)
      | Some sc \<Rightarrow>
          Inr ((set_swap_chain b (SwapChain width height) s)
                 \<lparr>events := events s @ [ResizeSwapChain_call b width height]\<rparr>))"

definition ReleaseSwapChain :: "backend \<Rightarrow> state \<Rightarrow> failure + state" where
  "ReleaseSwapChain b s =
     (case workload b s of
        None \<Rightarrow> Inl (NullWorkload b)
      | Some sc \<Rightarrow>
          Inr ((set_swap_chain b ReleasedSwapChain s)
                 \<lparr>events := events s @ [ReleaseSwapChain_call b]\<rparr>))"

definition WaitForReadyToRender :: "state \<Rightarrow> failure + state" where
  "WaitForReadyToRender s =
     (case workload D3D12 s of
        None \<Rightarrow> Inl (NullWorkload D3D12)
      | Some sc \<Rightarrow> Inr (s\<lparr>events := events s @ [WaitForReadyToRender_call]\<rparr>))"

definition Render :: "backend \<Rightarrow> real \<Rightarrow> state \<Rightarrow> failure + state" where
  "Render b frameTimeArg s =
     (case workload b s of
        None \<Rightarrow> Inl (NullWorkload b)
      | Some sc \<Rightarrow> Inr (s\<lparr>events := events s @ [Render_call b sc frameTimeArg]\<rparr>))"

text \<open>The backend that the flag \<open>gSettings.d3d12\<close> selects.\<close>

definition active :: "state \<Rightarrow> backend" where
  "active s = (if d3d12 (gSettings s) then D3D12 else D3D11)"

subsection \<open>Messages\<close>

text \<open>
  \<open>LOWORD\<close>, \<open>HIWORD\<close> and \<open>GET_WHEEL_DELTA_WPARAM\<close> are macros of the Windows headers:
  bits 0 to 15, bits 16 to 31, and bits 16 to 31 read as a signed 16-bit value.
\<close>

definition LOWORD :: "64 word \<Rightarrow> 16 word" where
  "LOWORD l = ucast (l AND 0xffff)"

definition HIWORD :: "64 word \<Rightarrow> 16 word" where
  "HIWORD l = ucast (drop_bit 16 l AND 0xffff)"

definition GET_WHEEL_DELTA_WPARAM :: "64 word \<Rightarrow> int" where
  "GET_WHEEL_DELTA_WPARAM wParam = sint (HIWORD wParam)"

text \<open>Virtual-key codes of the Windows headers; a letter or digit key has its ASCII code.\<close>

definition VK_RETURN :: "64 word" where "VK_RETURN = 0x0D"
definition VK_ESCAPE :: "64 word" where "VK_ESCAPE = 0x1B"
definition VK_SPACE :: "64 word" where "VK_SPACE = 0x20"
definition key_1 :: "64 word" where "key_1 = 0x31"
definition key_2 :: "64 word" where "key_2 = 0x32"
definition key_I :: "64 word" where "key_I = 0x49"
definition key_M :: "64 word" where "key_M = 0x4D"
definition key_S :: "64 word" where "key_S = 0x53"
definition key_V :: "64 word" where "key_V = 0x56"

text \<open>
  What the GUI and Windows answer while a pointer message is handled is input to the
  model: the control \<open>gGUI.HitTest\<close> returns (looked at for \<open>WM_POINTERDOWN\<close> only) and
  the outputs the interaction context hands to the camera's callback during
  \<open>ProcessPointerFrames\<close>. \<open>None\<close> in a pointer message means that \<open>GetPointerInfo\<close>
  failed. The pointers registered with the interaction context are state of that
  context and not of the model.
\<close>

datatype gui_control = FPSControl | D3D11Control | D3D12Control | NoControl

datatype pointer_kind = POINTERDOWN | POINTERUPDATE | POINTERUP

datatype msg =
    WM_DESTROY
  | WM_SIZE "64 word"
  | WM_KEYDOWN "64 word" "64 word"
  | WM_SYSKEYDOWN "64 word" "64 word"
  | WM_MOUSEWHEEL "64 word"
  | WM_POINTER pointer_kind "(gui_control \<times> interaction_output list) option"
  | WM_QUIT "64 word"
  | WM_OTHER

definition emit :: "event \<Rightarrow> state \<Rightarrow> state" where
  "emit e s = s\<lparr>events := events s @ [e]\<rparr>"

definition set_d3d12 :: "bool \<Rightarrow> state \<Rightarrow> state" where
  "set_d3d12 v s = s\<lparr>gSettings := (gSettings s)\<lparr>d3d12 := v\<rparr>\<rparr>"

fun WindowProc :: "state \<Rightarrow> msg \<Rightarrow> failure + state" where
  "WindowProc s WM_DESTROY = Inr (emit (PostQuitMessage_call 0) s)"
| "WindowProc s (WM_SIZE lParam) =
     (let ww = LOWORD lParam; wh = HIWORD lParam in
      if ww = 0 \<or> wh = 0 then Inr s
      else
        let st1 = (gSettings s)\<lparr>windowWidth := uint ww, windowHeight := uint wh\<rparr>;
            st2 = st1\<lparr>renderWidth :=
                    nat \<lfloor>dbl (real_of_int (windowWidth st1) * renderScale st1)\<rfloor>\<rparr>;
            st3 = st2\<lparr>renderHeight :=
                    nat \<lfloor>dbl (real_of_int (windowHeight st2) * renderScale st2)\<rfloor>\<rparr>;
            aspect = flt (flt (real (renderWidth st3)) / flt (real (renderHeight st3)));
            s1 = s\<lparr>gSettings := st3,
                   gCamera := Projection (gCamera s)
                                (flt (flt (flt (XM_PIDIV2 * f_0_8) * 3) / 2)) aspect\<rparr>
        in if d3d12 (gSettings s1)
           then ResizeSwapChain D3D12 (renderWidth st3) (renderHeight st3) s1
           else ResizeSwapChain D3D11 (renderWidth st3) (renderHeight st3) s1)"
| "WindowProc s (WM_KEYDOWN wParam lParam) =
     (if lParam AND push_bit 30 1 \<noteq> 0 then Inr s
      else if wParam = VK_SPACE
        then Inr (s\<lparr>gSettings := (gSettings s)\<lparr>animate := \<not> animate (gSettings s)\<rparr>\<rparr>)
      else if wParam = key_V
        then Inr (s\<lparr>gSettings := (gSettings s)\<lparr>vsync := \<not> vsync (gSettings s)\<rparr>\<rparr>)
      else if wParam = key_M
        then Inr (s\<lparr>gSettings := (gSettings s)
                    \<lparr>multithreadedRendering := \<not> multithreadedRendering (gSettings s)\<rparr>\<rparr>)
      else if wParam = key_I
        then Inr (s\<lparr>gSettings := (gSettings s)
                    \<lparr>executeIndirect := \<not> executeIndirect (gSettings s)\<rparr>\<rparr>)
      else if wParam = key_S
        then Inr (s\<lparr>gSettings := (gSettings s)
                    \<lparr>submitRendering := \<not> submitRendering (gSettings s)\<rparr>\<rparr>)
      else if wParam = key_1 then Inr (set_d3d12 (gWorkloadD3D11 s = None) s)
      else if wParam = key_2 then Inr (set_d3d12 (gWorkloadD3D12 s \<noteq> None) s)
      else if wParam = VK_ESCAPE then Inr (emit SendMessage_WM_CLOSE s)
      else Inr s)"
| "WindowProc s (WM_SYSKEYDOWN wParam lParam) =
     (if lParam AND push_bit 30 1 \<noteq> 0 then Inr s
      else if wParam = VK_RETURN then Inr (emit ToggleFullscreen_call s)
      else Inr s)"
| "WindowProc s (WM_MOUSEWHEEL wParam) =
     (let delta = GET_WHEEL_DELTA_WPARAM wParam
      in Inr (s\<lparr>gCamera := ZoomRadius (gCamera s) (flt (- f_0_07 * real_of_int delta))\<rparr>))"
| "WindowProc s (WM_POINTER kind None) = Inr s"
| "WindowProc s (WM_POINTER kind (Some (guiControl, outputs))) =
     (let s1 =
        (if kind = POINTERDOWN then
           (if guiControl = FPSControl
              then s\<lparr>gSettings := (gSettings s)\<lparr>lockFrameRate := \<not> lockFrameRate (gSettings s)\<rparr>\<rparr>
            else if guiControl = D3D11Control then set_d3d12 (gWorkloadD3D12 s \<noteq> None) s
            else if guiControl = D3D12Control then set_d3d12 (gWorkloadD3D11 s = None) s
            else s)
         else s)
      in Inr (s1\<lparr>gCamera := foldl InteractionOutputCallback (gCamera s1) outputs\<rparr>))"
| "WindowProc s (WM_QUIT wParam) = Inr (emit DefWindowProc_call s)"
| "WindowProc s WM_OTHER = Inr (emit DefWindowProc_call s)"

subsection \<open>Start of \<open>main\<close>\<close>

text \<open>
  The part of \<open>main\<close> from the availability check to the entry of the main loop.
  Inputs: the settings and the two availability flags as the command line left them, the
  camera after \<open>ResetCameraView\<close>, whether \<open>QueryInterface\<close> for \<open>IDXGIFactory4\<close> and
  \<open>EnumWarpAdapter\<close> succeed, the messages Windows sends to the window procedure while
  the window is created and shown, and the two readings of the performance counter.
  \<open>Inl code\<close> is \<open>return code\<close>.
\<close>

fun send_all :: "state \<Rightarrow> msg list \<Rightarrow> failure + state" where
  "send_all s [] = Inr s"
| "send_all s (m # ms) =
     (case WindowProc s m of Inl e \<Rightarrow> Inl e | Inr s1 \<Rightarrow> send_all s1 ms)"

definition main_init ::
  "Settings \<Rightarrow> OrbitCamera \<Rightarrow> bool \<Rightarrow> bool \<Rightarrow> bool \<Rightarrow> bool \<Rightarrow> msg list \<Rightarrow> 64 word \<Rightarrow> 64 word
     \<Rightarrow> int + (failure + state)" where
  "main_init st cam d3d11Available d3d12Available factory4 warpAdapter sent freq cnt =
     (if \<not> d3d11Available \<and> \<not> d3d12Available then Inl (- 1)
      else
        let w11 = (if d3d11Available then Some NoSwapChain else None) in
        if d3d12Available \<and> warp st \<and> \<not> factory4 then Inl (- 1)
        else if d3d12Available \<and> warp st \<and> \<not> warpAdapter then Inl (- 1)
        else
          let w12 = (if d3d12Available then Some NoSwapChain else None);
              st1 = st\<lparr>d3d12 := (w12 \<noteq> None)\<rparr>;
              s0 = \<lparr> gSettings = st1, gCamera = cam,
                     gWorkloadD3D11 = w11, gWorkloadD3D12 = w12,
                     fpsControlText = TextUnset,
                     d3d12ControlVisible = None, d3d11ControlVisible = None,
                     windowText = TitleInitial,
                     perfCounterFreq = freq, lastPerfCount = cnt,
                     elapsedTime = 0, timeInterval = 0, frameTime = 0,
                     sumFPS = 0, currentFPS = 0, minFPS = 99999999, maxFPS = 0,
                     numFrames = 0, fpsHistoryVector = [], events = [], files = [] \<rparr>
          in Inr (case send_all s0 sent of
                    Inl e \<Rightarrow> Inl e
                  | Inr s1 \<Rightarrow>
                      Inr (s1\<lparr>gSettings := (gSettings s1)
                        \<lparr>statsCsvFileName :=
                           (if statsCsvFileName (gSettings s1) = ''''
                            then ''asteroid_summary_stats.csv''
                            else statsCsvFileName (gSettings s1)),
                         statsSummaryCsvFileName :=
                           (if statsSummaryCsvFileName (gSettings s1) = ''''
                            then ''asteroid_stats.csv''
                            else statsSummaryCsvFileName (gSettings s1))\<rparr>\<rparr>)))"

subsection \<open>One iteration of the main loop\<close>

text \<open>
  What an iteration takes from outside: the messages \<open>PeekMessage\<close> finds in the queue,
  oldest first; the outputs the interaction context hands to the camera's callback
  during \<open>ProcessInertia\<close>; the performance counter read before the render call and,
  when the frame rate is locked, after it.
\<close>

record tick_input =
  messages :: "msg list"
  inertia :: "interaction_output list"
  count :: "64 word"
  afterRenderCount :: "64 word"

datatype drained = Drained state | QuitSeen int state | DrainFailed failure

text \<open>
  The \<open>PeekMessage\<close> loop. \<open>WM_QUIT\<close> ends \<open>main\<close> with \<open>(int)msg.wParam\<close>; every
  other message goes to the window procedure.
\<close>

fun PeekMessage_loop :: "state \<Rightarrow> msg list \<Rightarrow> drained" where
  "PeekMessage_loop s [] = Drained s"
| "PeekMessage_loop s (WM_QUIT wParam # ms) =
     QuitSeen (sint (ucast wParam :: 32 word)) (emit Cleanup s)"
| "PeekMessage_loop s (m # ms) =
     (case WindowProc s m of
        Inl e \<Rightarrow> DrainFailed e
      | Inr s1 \<Rightarrow> PeekMessage_loop s1 ms)"

text \<open>"If we swap to a new API we need to recreate swap chains."\<close>

definition recreate_swap_chains :: "bool \<Rightarrow> state \<Rightarrow> failure + state" where
  "recreate_swap_chains d3d12LastFrame s =
     (if d3d12LastFrame \<noteq> d3d12 (gSettings s) then
        (if d3d12 (gSettings s) then
           (case ReleaseSwapChain D3D11 s of
              Inl e \<Rightarrow> Inl e
            | Inr s1 \<Rightarrow> ResizeSwapChain D3D12 (renderWidth (gSettings s1))
                          (renderHeight (gSettings s1)) s1)
         else
           (case ReleaseSwapChain D3D12 s of
              Inl e \<Rightarrow> Inl e
            | Inr s1 \<Rightarrow> ResizeSwapChain D3D11 (renderWidth (gSettings s1))
                          (renderHeight (gSettings s1)) s1))
      else Inr s)"

definition ProcessInertia :: "interaction_output list \<Rightarrow> state \<Rightarrow> state" where
  "ProcessInertia outputs s =
     s\<lparr>gCamera := foldl InteractionOutputCallback (gCamera s) outputs\<rparr>"

text \<open>"In D3D12 we'll wait on the GPU before taking the timestamp."\<close>

definition wait_on_gpu :: "state \<Rightarrow> failure + state" where
  "wait_on_gpu s = (if d3d12 (gSettings s) then WaitForReadyToRender s else Inr s)"

text \<open>The raw frame time of an iteration whose counter reading is \<open>cnt\<close>.\<close>

definition rawFrameTime :: "64 word \<Rightarrow> state \<Rightarrow> real" where
  "rawFrameTime cnt s =
     dbl (dbl (real (unat (cnt - lastPerfCount s))) / dbl (real (unat (perfCounterFreq s))))"

text \<open>"Get time delta", with the smoothing of the frame time.\<close>

definition get_time_delta :: "64 word \<Rightarrow> state \<Rightarrow> state" where
  "get_time_delta cnt s =
     (let raw = rawFrameTime cnt s;
          alpha = f_0_2
      in s\<lparr>elapsedTime := dbl (elapsedTime s + raw),
           lastPerfCount := cnt,
           frameTime := dbl (dbl (alpha * raw) + dbl (dbl (1 - alpha) * frameTime s))\<rparr>)"

text \<open>"Update GUI": window title, FPS text, statistics, visibility of the two sprites.\<close>

definition update_gui :: "real \<Rightarrow> state \<Rightarrow> state" where
  "update_gui raw s =
     (let st = gSettings s;
          fps = (if lockFrameRate st then currentFPS s
                 else if frameTime s \<noteq> 0 then dbl (1 / frameTime s) else currentFPS s);
          buffer = (if lockFrameRate st then TextLocked else TextFps fps);
          s1 = s\<lparr>windowText := TitleFrame (d3d12 st) (dbl (1000 * frameTime s)),
                 currentFPS := fps\<rparr>;
          s2 = (if closeAfterSeconds st > 0 then
                  let n = numFrames s1 + 1;
                      s3 = s1\<lparr>numFrames := n\<rparr>;
                      s4 = (if 100 < n then
                              s3\<lparr>sumFPS := dbl (sumFPS s3 + fps),
                                 minFPS := (if fps < minFPS s3 then fps else minFPS s3),
                                 maxFPS := (if fps > maxFPS s3 then fps else maxFPS s3)\<rparr>
                            else s3);
                      ti = dbl (timeInterval s4 + dbl (raw * 1000))
                  in if ti \<ge> 1000
                     then s4\<lparr>fpsHistoryVector := fpsHistoryVector s4 @
                                [(elapsedTime s4, dbl (frameTime s4 * 1000), dbl (raw * 1000))],
                             timeInterval := 0\<rparr>
                     else s4\<lparr>timeInterval := ti\<rparr>
                else s1)
      in s2\<lparr>fpsControlText := buffer,
            d3d12ControlVisible := Some (d3d12 st),
            d3d11ControlVisible := Some (\<not> d3d12 st)\<rparr>)"

definition render :: "state \<Rightarrow> failure + state" where
  "render s =
     (if d3d12 (gSettings s) then Render D3D12 (flt (frameTime s)) s
      else Render D3D11 (flt (frameTime s)) s)"

text \<open>
  The wait of the locked frame rate: \<open>deltaMs\<close> is computed in double arithmetic, from
  the target time \<open>1.0 / lockedFrameRate\<close> and the render time in seconds. \<open>Sleep\<close> takes
  a \<open>DWORD\<close>: the conversion drops the fraction of \<open>deltaMs\<close>.
\<close>

definition deltaMs :: "64 word \<Rightarrow> 64 word \<Rightarrow> state \<Rightarrow> real" where
  "deltaMs cnt afterCnt s =
     (let renderTime =
            dbl (dbl (real (unat (afterCnt - cnt))) / dbl (real (unat (perfCounterFreq s))));
          targetRenderTime = dbl (1 / dbl (real_of_int (lockedFrameRate (gSettings s))))
      in dbl (dbl (targetRenderTime - renderTime) * 1000))"

definition frame_lock_wait :: "64 word \<Rightarrow> 64 word \<Rightarrow> state \<Rightarrow> state" where
  "frame_lock_wait cnt afterCnt s =
     (if lockFrameRate (gSettings s) then
        (if deltaMs cnt afterCnt s > 1
         then emit (Sleep_call (nat \<lfloor>deltaMs cnt afterCnt s\<rfloor>)) s
         else s)
      else s)"

datatype outcome =
    Continue state
  | ReturnQuit int state
  | ReturnCloseAfter state
  | Failed failure

text \<open>
  "All done?": the two statistics files, then \<open>return 0\<close>. The stream writes a double
  with 6 significant digits. The average is \<open>sumFPS / (numFrames - 100)\<close>, the
  subtraction in \<open>std::uint64_t\<close> and the division in double: when exactly 100 frames
  were counted the divisor is 0 and the quotient is a NaN or an infinity.
\<close>

definition averageFPS :: "state \<Rightarrow> real option" where
  "averageFPS s =
     (if numFrames s - 100 = 0 then None
      else Some (dbl (sumFPS s / dbl (real (unat (numFrames s - 100))))))"

definition summary_file :: "state \<Rightarrow> string \<times> csv" where
  "summary_file s =
     (statsSummaryCsvFileName (gSettings s),
      Csv ''MinFPS,MaxFPS,AverageFPS''
        [[Some (sig6 (minFPS s)), Some (sig6 (maxFPS s)), map_option sig6 (averageFPS s)]])"

definition series_file :: "state \<Rightarrow> string \<times> csv" where
  "series_file s =
     (statsCsvFileName (gSettings s),
      Csv ''ElapsedTime(s),FrameTime(ms),RawFrameTime(ms)''
        (map (\<lambda>(e, f, r). [Some (sig6 e), Some (sig6 f), Some (sig6 r)])
           (fpsHistoryVector s)))"

definition all_done :: "state \<Rightarrow> outcome" where
  "all_done s =
     (if closeAfterSeconds (gSettings s) > 0 \<and> elapsedTime s > closeAfterSeconds (gSettings s)
      then ReturnCloseAfter
             (emit SendMessage_WM_CLOSE (s\<lparr>files := files s @ [summary_file s, series_file s]\<rparr>))
      else Continue s)"

definition tick :: "state \<Rightarrow> tick_input \<Rightarrow> outcome" where
  "tick s inp =
     (let d3d12LastFrame = d3d12 (gSettings s) in
      case PeekMessage_loop s (messages inp) of
        QuitSeen code s1 \<Rightarrow> ReturnQuit code s1
      | DrainFailed e \<Rightarrow> Failed e
      | Drained s1 \<Rightarrow>
          (case recreate_swap_chains d3d12LastFrame s1 of
             Inl e \<Rightarrow> Failed e
           | Inr s2 \<Rightarrow>
               (case wait_on_gpu (ProcessInertia (inertia inp) s2) of
                  Inl e \<Rightarrow> Failed e
                | Inr s3 \<Rightarrow>
                    (case render (update_gui (rawFrameTime (count inp) s3)
                                    (get_time_delta (count inp) s3)) of
                       Inl e \<Rightarrow> Failed e
                     | Inr s4 \<Rightarrow>
                         all_done (frame_lock_wait (count inp) (afterRenderCount inp) s4)))))"

text \<open>
  The main loop over the inputs of its iterations: it stops at the first \<open>return\<close> or
  failure, and is still running when the inputs are used up.
\<close>

fun main_loop :: "state \<Rightarrow> tick_input list \<Rightarrow> outcome" where
  "main_loop s [] = Continue s"
| "main_loop s (inp # inps) =
     (case tick s inp of
        Continue s1 \<Rightarrow> main_loop s1 inps
      | other \<Rightarrow> other)"

section \<open>Notions used to state the properties\<close>

text \<open>The state a finished or continuing iteration leaves behind.\<close>

fun final_state :: "outcome \<Rightarrow> state option" where
  "final_state (Continue s) = Some s"
| "final_state (ReturnQuit code s) = Some s"
| "final_state (ReturnCloseAfter s) = Some s"
| "final_state (Failed e) = None"


text \<open>The flag selects a backend whose workload object exists.\<close>

definition backend_ok :: "state \<Rightarrow> bool" where
  "backend_ok s = (workload (active s) s \<noteq> None)"

text \<open>The arguments of the \<open>Sleep\<close> calls and the \<open>Render\<close> calls among some events.\<close>

fun sleep_calls :: "event list \<Rightarrow> nat list" where
  "sleep_calls [] = []"
| "sleep_calls (Sleep_call n # es) = n # sleep_calls es"
| "sleep_calls (e # es) = sleep_calls es"

fun render_calls :: "event list \<Rightarrow> (backend \<times> swap_chain) list" where
  "render_calls [] = []"
| "render_calls (Render_call b sc t # es) = (b, sc) # render_calls es"
| "render_calls (e # es) = render_calls es"

text \<open>
  The states at the head of the main loop: the state \<open>main\<close> enters the loop with, and
  the state after every iteration that does not return.
\<close>

inductive reachable :: "state \<Rightarrow> bool" where
  enter: "main_init st cam d3d11Available d3d12Available factory4 warpAdapter sent freq cnt
            = Inr (Inr s) \<Longrightarrow> reachable s"
| iterate: "reachable s \<Longrightarrow> tick s inp = Continue s1 \<Longrightarrow> reachable s1"







text \<open>No message of the iteration is \<open>WM_QUIT\<close>.\<close>

fun is_WM_QUIT :: "msg \<Rightarrow> bool" where
  "is_WM_QUIT (WM_QUIT wParam) = True"
| "is_WM_QUIT _ = False"


text \<open>A settings value and an iteration input for the examples.\<close>

definition example_settings :: Settings where
  "example_settings =
     \<lparr> d3d12 = False, windowWidth = 1080, windowHeight = 720,
       renderWidth = 0, renderHeight = 0, renderScale = 1,
       animate = True, vsync = False, multithreadedRendering = True,
       executeIndirect = False, submitRendering = True,
       lockFrameRate = False, lockedFrameRate = 60, closeAfterSeconds = 2,
       warp = False, windowed = True,
       statsCsvFileName = '''', statsSummaryCsvFileName = '''' \<rparr>"

text \<open>
  The loop entry state of a run with both backends, a first \<open>WM_SIZE\<close> for a client
  area of 800 by 600, and a counter of 1000 ticks a second that reads 0.
\<close>

definition example_state :: state where
  "example_state =
     (case main_init example_settings OrbitCamera_new True True True True
             [WM_SIZE 0x02580320] 1000 0 of
        Inr (Inr s) \<Rightarrow> s)"

definition example_input :: "msg list \<Rightarrow> 64 word \<Rightarrow> 64 word \<Rightarrow> tick_input" where
  "example_input ms c a = \<lparr> messages = ms, inertia = [], count = c, afterRenderCount = a \<rparr>"

text \<open>
  The same run with a counter of 10 MHz and a frame rate to lock to of 50, and the
  inputs of frames without messages whose counter readings are given.
\<close>

definition example_state_10MHz :: state where
  "example_state_10MHz =
     (case main_init (example_settings\<lparr>lockedFrameRate := 50\<rparr>) OrbitCamera_new
             True True True True [WM_SIZE 0x02580320] 10000000 0 of
        Inr (Inr s) \<Rightarrow> s)"

definition example_frames :: "64 word list \<Rightarrow> tick_input list" where
  "example_frames cs = map (\<lambda>c. example_input [] c c) cs"


text \<open>
  The variables of the main loop, and the settings that nothing changes once the loop
  runs.
\<close>

definition loop_vars ::
  "state \<Rightarrow> 64 word \<times> 64 word \<times> real \<times> real \<times> real \<times> real \<times> real \<times> real \<times> real \<times> 64 word
     \<times> (real \<times> real \<times> real) list \<times> (string \<times> csv) list" where
  "loop_vars s =
     (perfCounterFreq s, lastPerfCount s, elapsedTime s, timeInterval s, frameTime s,
      sumFPS s, currentFPS s, minFPS s, maxFPS s, numFrames s, fpsHistoryVector s, files s)"

definition fixed_settings :: "state \<Rightarrow> real \<times> int \<times> string \<times> string" where
  "fixed_settings s =
     (closeAfterSeconds (gSettings s), lockedFrameRate (gSettings s),
      statsCsvFileName (gSettings s), statsSummaryCsvFileName (gSettings s))"

text \<open>
  What handling messages can do to a state: the loop variables and the fixed settings
  stay, no workload appears or disappears, no swap chain is released, and the calls made
  are neither \<open>Sleep\<close> nor \<open>Render\<close>.
\<close>

definition message_effect :: "state \<Rightarrow> state \<Rightarrow> bool" where
  "message_effect s s1 =
     (loop_vars s1 = loop_vars s \<and> fixed_settings s1 = fixed_settings s
      \<and> (\<forall>b. (workload b s1 = None) = (workload b s = None)
             \<and> (workload b s1 = Some ReleasedSwapChain \<longrightarrow> workload b s = Some ReleasedSwapChain))
      \<and> (\<exists>new. events s1 = events s @ new \<and> sleep_calls new = [] \<and> render_calls new = []))"

text \<open>
  What holds at the head of the loop: the selected backend exists and its swap chain has
  not been released, and no \<open>Render\<close> call so far went to a released swap chain.
\<close>

definition loop_invariant :: "state \<Rightarrow> bool" where
  "loop_invariant s =
     (backend_ok s \<and> workload (active s) s \<noteq> Some ReleasedSwapChain
      \<and> (\<forall>b. (b, ReleasedSwapChain) \<notin> set (render_calls (events s))))"

section \<open>Evaluation of the rounding\<close>

lemma digits_0: "digits b 0 = 0"
  by (simp add: digits.simps)

lemma digits_Suc_0: "digits (numeral b) (Suc 0) = (if numeral b < (2 :: nat) then 0 else Suc 0)"
proof (cases "numeral b < (2 :: nat)")
  case True
  then show ?thesis by (subst digits.simps) simp
next
  case False
  then have "Suc 0 < (numeral b :: nat)" by arith
  then have "Suc 0 div (numeral b :: nat) = 0" by (rule div_less)
  with False show ?thesis by (subst digits.simps) (simp add: digits_0)
qed

lemma digits_numeral:
  "digits (numeral b) (numeral n) =
     (if numeral b < (2 :: nat) then 0 else Suc (digits (numeral b) (numeral n div numeral b)))"
  by (subst digits.simps) simp

text \<open>
  The rounding unfolds on literals only, so that evaluation proceeds from the inside.
\<close>

lemma round_sig_0: "round_sig b p 0 = 0"
  by (simp add: round_sig_def)

lemma round_sig_minus: "round_sig b p (- x) = - round_sig b p x"
  by (simp add: round_sig_def Let_def)

lemmas round_sig_eval =
  round_sig_0 round_sig_minus round_sig_def [of _ _ 1] round_sig_def [of _ _ "numeral n"]
  round_sig_def [of _ _ "numeral n / numeral m"] round_sig_def [of _ _ "1 / numeral m"]
  for n m

lemmas floor_log_eval =
  floor_log_def [of _ 1] floor_log_def [of _ "numeral n"]
  floor_log_def [of _ "numeral n / numeral m"] floor_log_def [of _ "1 / numeral m"]
  for n m

lemmas round_even_eval =
  round_even_def [of 0] round_even_def [of 1] round_even_def [of "numeral n"]
  round_even_def [of "numeral n / numeral m"] round_even_def [of "1 / numeral m"]
  for n m

lemmas scale_pow_eval =
  scale_pow_def [of _ 0] scale_pow_def [of _ 1] scale_pow_def [of _ "numeral n"]
  scale_pow_def [of _ "- 1"] scale_pow_def [of _ "- numeral n"]
  for n

lemmas round_defs =
  dbl_def flt_def sig6_def round_sig_eval floor_log_eval round_even_eval scale_pow_eval
  digits_0 digits_Suc_0 digits_numeral Let_def

section \<open>Properties of the rounding\<close>

text \<open>
  The rounded value is within half a unit in the last place: the relative error of
  \<open>dbl\<close> is at most \<open>2 ^ -53\<close>.
\<close>

lemma digits_bounds:
  assumes b: "2 \<le> b" and n: "0 < n"
  shows "b ^ (digits b n - 1) \<le> n \<and> n < b ^ digits b n"
  using n
proof (induction n rule: less_induct)
  case (less n)
  from b less.prems have d: "digits b n = Suc (digits b (n div b))"
    by (subst digits.simps) simp
  show ?case
  proof (cases "n < b")
    case True
    then have "n div b = 0" by simp
    then have "digits b n = 1" using d by (simp add: digits_0)
    with True less.prems show ?thesis by simp
  next
    case False
    with b have pos: "0 < n div b" by (simp add: div_greater_zero_iff)
    from b less.prems have lt: "n div b < n" by simp
    from less.IH [OF lt pos] have
      lo: "b ^ (digits b (n div b) - 1) \<le> n div b" and hi: "n div b < b ^ digits b (n div b)"
      by auto
    from pos b have dp: "0 < digits b (n div b)"
      by (subst digits.simps) simp
    have "b ^ (digits b n - 1) = b * b ^ (digits b (n div b) - 1)"
      using d dp by (cases "digits b (n div b)") simp_all
    also have "\<dots> \<le> b * (n div b)" using lo by simp
    also have "\<dots> \<le> n" by simp
    finally have 1: "b ^ (digits b n - 1) \<le> n" .
    from hi have "n div b + 1 \<le> b ^ digits b (n div b)" by simp
    then have "b * (n div b + 1) \<le> b * b ^ digits b (n div b)" by (rule mult_le_mono2)
    moreover have "n < b * (n div b + 1)"
    proof -
      have "n = b * (n div b) + n mod b" by simp
      moreover from b have "n mod b < b" by simp
      ultimately show ?thesis by (simp only: distrib_left mult_1_right)
    qed
    ultimately have 2: "n < b ^ digits b n" using d by simp
    from 1 2 show ?thesis ..
  qed
qed


lemma scale_pow_pos: "0 < b \<Longrightarrow> 0 < scale_pow b k"
  by (simp add: scale_pow_def)

lemma scale_pow_powr: "0 < b \<Longrightarrow> scale_pow b k = real b powr real_of_int k"
  by (simp add: scale_pow_def powr_realpow [symmetric] powr_minus divide_inverse)

lemma scale_pow_add: "0 < b \<Longrightarrow> scale_pow b (i + j) = scale_pow b i * scale_pow b j"
  by (simp add: scale_pow_powr powr_add)

lemma floor_log_le:
  assumes b: "2 \<le> b" and x: "0 < x"
  shows "scale_pow b (floor_log b x) \<le> x"
proof (cases "1 \<le> x")
  case True
  define n where "n = nat \<lfloor>x\<rfloor>"
  from True have n: "0 < n" "real n \<le> x" by (simp_all add: n_def)
  from digits_bounds [OF b n(1)] have lo: "b ^ (digits b n - 1) \<le> n" by simp
  from digits_bounds [OF b n(1)] n(1) b have "0 < digits b n"
    by (cases "digits b n") auto
  then have "floor_log b x = int (digits b n - 1)"
    using True by (simp add: floor_log_def n_def)
  then have "scale_pow b (floor_log b x) = real (b ^ (digits b n - 1))"
    by (simp add: scale_pow_def)
  also have "\<dots> \<le> real n" using lo by (simp only: of_nat_le_iff)
  also have "\<dots> \<le> x" by (rule n(2))
  finally show ?thesis .
next
  case False
  define m where "m = nat (\<lceil>1 / x\<rceil> - 1)"
  from False x have "1 < 1 / x" by simp
  then have "1 < \<lceil>1 / x\<rceil>" by (simp add: less_ceiling_iff)
  then have m: "0 < m" "1 / x \<le> real m + 1"
    by (simp_all add: m_def) linarith+
  from digits_bounds [OF b m(1)] have "m + 1 \<le> b ^ digits b m" by simp
  then have "real (m + 1) \<le> real (b ^ digits b m)" by (simp only: of_nat_le_iff)
  with m(2) have "1 / x \<le> real b ^ digits b m" by simp
  with x b have "1 / real b ^ digits b m \<le> x"
    by (simp add: field_simps)
  moreover have "floor_log b x = - int (digits b m)"
    using False by (simp add: floor_log_def m_def)
  ultimately show ?thesis by (auto simp: scale_pow_def)
qed

lemma round_even_near: "\<bar>real_of_int (round_even y) - y\<bar> \<le> 1 / 2"
  by (simp add: round_even_def Let_def)

lemma round_sig_error:
  assumes b: "2 \<le> b"
  shows "\<bar>round_sig b p x - x\<bar> \<le> \<bar>x\<bar> * scale_pow b (1 - int p) / 2"
proof (cases "x = 0")
  case True
  then show ?thesis by (simp add: round_sig_def)
next
  case False
  define e where "e = floor_log b \<bar>x\<bar>"
  define u where "u = scale_pow b (e - int p + 1)"
  define n where "n = round_even (\<bar>x\<bar> / u)"
  from b have b0: "0 < b" by simp
  from b0 have u: "0 < u" by (simp add: u_def scale_pow_pos)
  have r: "round_sig b p x = sgn x * of_int n * u"
    using False by (simp add: round_sig_def Let_def e_def u_def n_def)
  have "x = sgn x * (\<bar>x\<bar> / u) * u" using u by (simp add: sgn_mult_abs)
  then have "round_sig b p x - x = sgn x * (of_int n - \<bar>x\<bar> / u) * u"
    unfolding r by (simp add: algebra_simps)
  then have "\<bar>round_sig b p x - x\<bar> = \<bar>of_int n - \<bar>x\<bar> / u\<bar> * u"
    using False u by (simp add: abs_mult abs_sgn_eq)
  also have "\<dots> \<le> 1 / 2 * u"
  proof (rule mult_right_mono)
    show "\<bar>real_of_int n - \<bar>x\<bar> / u\<bar> \<le> 1 / 2"
      unfolding n_def by (rule round_even_near)
    show "0 \<le> u" using u by simp
  qed
  also have "u = scale_pow b e * scale_pow b (1 - int p)"
    unfolding u_def using scale_pow_add [OF b0, of e "1 - int p"] by (simp add: algebra_simps)
  also have "1 / 2 * (scale_pow b e * scale_pow b (1 - int p))
      \<le> 1 / 2 * (\<bar>x\<bar> * scale_pow b (1 - int p))"
    using floor_log_le [OF b, of "\<bar>x\<bar>"] False scale_pow_pos [OF b0, of "1 - int p"]
    by (intro mult_left_mono mult_right_mono) (simp_all add: e_def)
  finally show ?thesis by simp
qed

lemma dbl_error: "\<bar>dbl x - x\<bar> \<le> \<bar>x\<bar> / 2 ^ 53"
  using round_sig_error [of 2 53 x] by (simp add: dbl_def scale_pow_def)

section \<open>Properties of the camera\<close>

lemma UpdateData_fields:
  "mRadius (UpdateData c) = mRadius c"
  "mMinRadius (UpdateData c) = mMinRadius c"
  "mMaxRadius (UpdateData c) = mMaxRadius c"
  "mLatAngle (UpdateData c) = mLatAngle c"
  "mLongAngle (UpdateData c) = mLongAngle c"
  "mProjection (UpdateData c) = mProjection c"
  by (simp_all add: UpdateData_def Let_def)

lemma std_clamp_bounds:
  assumes "lo \<le> hi"
  shows "lo \<le> std_max lo (std_min hi x)" and "std_max lo (std_min hi x) \<le> hi"
  using assms by (simp_all add: std_max_def std_min_def)

text \<open>
  C1, as the source has it: \<open>Projection\<close> builds the perspective matrix with the given
  field of view when the aspect ratio is at most 1, and with the field of view divided
  by the aspect ratio when the aspect ratio is greater than 1 (the division falls on the
  wide displays).
\<close>

theorem Projection_fovY:
  "fovY_of (mProjection (Projection c fov aspect)) =
     Some (if aspect \<le> 1 then fov else fov / aspect)"
  by (simp add: Projection_def Let_def UpdateData_fields)

text \<open>
  C1 as the claim words it fails: at aspect ratio 2, which is greater than 1, the field
  of view 1 is not used as given but halved.
\<close>

theorem Projection_fovY_counterexample:
  "(1::real) < 2
   \<and> fovY_of (mProjection (Projection OrbitCamera_new 1 2)) = Some (1 / 2)
   \<and> fovY_of (mProjection (Projection OrbitCamera_new 1 2)) \<noteq> Some 1"
  by (simp add: Projection_def Let_def UpdateData_fields)

text \<open>
  C2: when \<open>mMinRadius \<le> mMaxRadius\<close>, the radius after \<open>ZoomRadius\<close> and after
  \<open>ZoomRadiusScale\<close> lies in \<open>[mMinRadius, mMaxRadius]\<close> whatever the argument is, and
  neither call changes the two bounds.
\<close>

theorem Zoom_radius_clamped:
  assumes "mMinRadius c \<le> mMaxRadius c"
  shows "mMinRadius c \<le> mRadius (ZoomRadius c delta)
       \<and> mRadius (ZoomRadius c delta) \<le> mMaxRadius c
       \<and> mMinRadius c \<le> mRadius (ZoomRadiusScale c factor)
       \<and> mRadius (ZoomRadiusScale c factor) \<le> mMaxRadius c
       \<and> mMinRadius (ZoomRadius c delta) = mMinRadius c
       \<and> mMaxRadius (ZoomRadius c delta) = mMaxRadius c
       \<and> mMinRadius (ZoomRadiusScale c factor) = mMinRadius c
       \<and> mMaxRadius (ZoomRadiusScale c factor) = mMaxRadius c"
  using std_clamp_bounds [OF assms]
  by (simp add: ZoomRadius_def ZoomRadiusScale_def UpdateData_fields)

theorem Zoom_radius_clamped_witness:
  "mMinRadius (View OrbitCamera_new (XMVectorSet 0 0 0 0) 50 10 100 0 1)
     \<le> mMaxRadius (View OrbitCamera_new (XMVectorSet 0 0 0 0) 50 10 100 0 1)
   \<and> mRadius (ZoomRadius (View OrbitCamera_new (XMVectorSet 0 0 0 0) 50 10 100 0 1) 1000) = 100
   \<and> mRadius (ZoomRadiusScale (View OrbitCamera_new (XMVectorSet 0 0 0 0) 50 10 100 0 1) (1 / 8)) = 10"
  using Zoom_radius_clamped [of "View OrbitCamera_new (XMVectorSet 0 0 0 0) 50 10 100 0 1" 1000 "1 / 8"]
  by (simp add: View_def OrbitCamera_new_def ZoomRadius_def ZoomRadiusScale_def
      UpdateData_fields std_max_def std_min_def)

text \<open>
  C3, as the source has it: with \<open>limit = XM_PI * 0.01f\<close>, the latitude after \<open>OrbitY\<close>
  lies in the closed interval \<open>[limit, XM_PI - limit]\<close>, for every angle and every
  previous latitude; both ends can be taken, and both are strictly between the poles
  \<open>0\<close> and \<open>XM_PI\<close>.
\<close>

theorem OrbitY_latitude_clamped:
  "XM_PI * f_0_01 \<le> mLatAngle (OrbitY c angle)
   \<and> mLatAngle (OrbitY c angle) \<le> XM_PI - XM_PI * f_0_01
   \<and> 0 < mLatAngle (OrbitY c angle)
   \<and> mLatAngle (OrbitY c angle) < XM_PI"
proof -
  have lim: "0 < XM_PI * f_0_01" "XM_PI * f_0_01 \<le> XM_PI - XM_PI * f_0_01"
    "XM_PI - XM_PI * f_0_01 < XM_PI"
    by (simp_all add: XM_PI_def f_0_01_def)
  have lat: "mLatAngle (OrbitY c angle) =
      std_max (XM_PI * f_0_01) (std_min (XM_PI - XM_PI * f_0_01) (mLatAngle c + angle))"
    by (simp add: OrbitY_def Let_def UpdateData_fields)
  have lo: "XM_PI * f_0_01 \<le> mLatAngle (OrbitY c angle)"
    unfolding lat by (rule std_clamp_bounds(1) [OF lim(2)])
  have hi: "mLatAngle (OrbitY c angle) \<le> XM_PI - XM_PI * f_0_01"
    unfolding lat by (rule std_clamp_bounds(2) [OF lim(2)])
  from lo hi lim(1) lim(3) show ?thesis
    by simp
qed

text \<open>
  C3 as the claim words it fails: a large angle sends the latitude to the upper limit
  itself, and a large negative angle to the lower limit itself; neither is strictly
  inside the open interval.
\<close>

theorem OrbitY_latitude_counterexample:
  "\<not> mLatAngle (OrbitY OrbitCamera_new 10) < XM_PI - XM_PI * f_0_01
   \<and> \<not> XM_PI * f_0_01 < mLatAngle (OrbitY OrbitCamera_new (- 10))"
  by (simp add: OrbitY_def Let_def UpdateData_fields OrbitCamera_new_def
      std_max_def std_min_def XM_PI_def f_0_01_def)

section \<open>Lemmas about messages and iterations\<close>

lemma workload_simps:
  "workload D3D11 s = gWorkloadD3D11 s" "workload D3D12 s = gWorkloadD3D12 s"
  by (simp_all add: workload_def)

lemma workload_upd:
  "workload b (s\<lparr>events := ev\<rparr>) = workload b s"
  "workload b (s\<lparr>gSettings := st\<rparr>) = workload b s"
  "workload b (s\<lparr>gCamera := cam\<rparr>) = workload b s"
  "workload b (emit e s) = workload b s"
  "workload b (set_d3d12 v s) = workload b s"
  by (simp_all add: workload_def emit_def set_d3d12_def split: backend.splits)

lemma active_upd:
  "active (s\<lparr>events := ev\<rparr>) = active s"
  "active (s\<lparr>gCamera := cam\<rparr>) = active s"
  "active (s\<lparr>gSettings := st\<rparr>) = (if d3d12 st then D3D12 else D3D11)"
  "active (emit e s) = active s"
  by (simp_all add: active_def emit_def)

lemma sleep_calls_append: "sleep_calls (xs @ ys) = sleep_calls xs @ sleep_calls ys"
  by (induction xs rule: sleep_calls.induct) simp_all

lemma render_calls_append: "render_calls (xs @ ys) = render_calls xs @ render_calls ys"
  by (induction xs rule: render_calls.induct) simp_all

lemma message_effect_refl: "message_effect s s"
  by (simp add: message_effect_def)

lemma message_effect_trans:
  assumes "message_effect s s1" and "message_effect s1 s2"
  shows "message_effect s s2"
proof -
  from assms obtain n1 n2 where
    e: "events s1 = events s @ n1" "sleep_calls n1 = []" "render_calls n1 = []"
       "events s2 = events s1 @ n2" "sleep_calls n2 = []" "render_calls n2 = []"
    by (auto simp: message_effect_def)
  then have "events s2 = events s @ (n1 @ n2) \<and> sleep_calls (n1 @ n2) = []
      \<and> render_calls (n1 @ n2) = []"
    by (simp add: sleep_calls_append render_calls_append)
  then have "\<exists>new. events s2 = events s @ new \<and> sleep_calls new = [] \<and> render_calls new = []"
    by blast
  with assms show ?thesis
    by (simp add: message_effect_def)
qed

lemma WindowProc_effect:
  assumes "WindowProc s m = Inr s1"
  shows "message_effect s s1"
  using assms
  apply (cases "(s, m)" rule: WindowProc.cases)
  apply (auto simp: message_effect_def loop_vars_def fixed_settings_def emit_def set_d3d12_def Let_def
      ResizeSwapChain_def set_swap_chain_def workload_def
      split: if_splits option.splits backend.splits)
  done

lemma WindowProc_ok:
  assumes "backend_ok s"
  shows "\<exists>s1. WindowProc s m = Inr s1 \<and> backend_ok s1"
  using assms
  apply (cases "(s, m)" rule: WindowProc.cases)
  apply (auto simp: backend_ok_def active_def emit_def set_d3d12_def Let_def
      ResizeSwapChain_def set_swap_chain_def workload_def
      split: if_splits option.splits backend.splits)
  done



lemma PeekMessage_loop_quit:
  "is_WM_QUIT m \<Longrightarrow>
     \<exists>code. PeekMessage_loop s (m # ms) = QuitSeen code (emit Cleanup s)"
  by (cases m) simp_all

lemma PeekMessage_loop_step:
  "\<not> is_WM_QUIT m \<Longrightarrow>
     PeekMessage_loop s (m # ms) =
       (case WindowProc s m of Inl e \<Rightarrow> DrainFailed e | Inr s1 \<Rightarrow> PeekMessage_loop s1 ms)"
  by (cases m) simp_all

lemma drain_effect:
  "PeekMessage_loop s ms = Drained s1 \<Longrightarrow> message_effect s s1"
proof (induction ms arbitrary: s)
  case Nil
  then show ?case by (simp add: message_effect_refl)
next
  case (Cons m ms)
  show ?case
  proof (cases "is_WM_QUIT m")
    case True
    with PeekMessage_loop_quit [OF True, of s ms] Cons.prems show ?thesis by auto
  next
    case False
    from Cons.prems obtain s2 where
      w: "WindowProc s m = Inr s2" and d: "PeekMessage_loop s2 ms = Drained s1"
      unfolding PeekMessage_loop_step [OF False] by (auto split: sum.splits)
    from WindowProc_effect [OF w] Cons.IH [OF d] show ?thesis
      by (rule message_effect_trans)
  qed
qed

lemma backend_ok_emit: "backend_ok (emit e s) = backend_ok s"
  by (simp add: backend_ok_def active_def workload_def emit_def)

lemma drain_ok:
  "backend_ok s \<Longrightarrow>
     (case PeekMessage_loop s ms of
        Drained s1 \<Rightarrow> backend_ok s1
      | QuitSeen code s1 \<Rightarrow> backend_ok s1
      | DrainFailed e \<Rightarrow> False)"
proof (induction ms arbitrary: s)
  case Nil
  then show ?case by simp
next
  case (Cons m ms)
  show ?case
  proof (cases "is_WM_QUIT m")
    case True
    from PeekMessage_loop_quit [OF True, of s ms] obtain code where
      "PeekMessage_loop s (m # ms) = QuitSeen code (emit Cleanup s)" by blast
    with Cons.prems show ?thesis
      by (simp add: backend_ok_emit)
  next
    case False
    from WindowProc_ok [OF Cons.prems, of m] obtain s2 where
      w: "WindowProc s m = Inr s2" and ok: "backend_ok s2" by blast
    from Cons.IH [OF ok] w show ?thesis
      unfolding PeekMessage_loop_step [OF False] by simp
  qed
qed



subsection \<open>The phases of an iteration\<close>

lemma recreate_swap_chains_Inr:
  assumes "recreate_swap_chains l s = Inr s2"
  shows "s2 = (if l \<noteq> d3d12 (gSettings s)
               then (set_swap_chain (active s)
                       (SwapChain (renderWidth (gSettings s)) (renderHeight (gSettings s)))
                       (set_swap_chain (if d3d12 (gSettings s) then D3D11 else D3D12)
                          ReleasedSwapChain s))
                    \<lparr>events := events s @
                       [ReleaseSwapChain_call (if d3d12 (gSettings s) then D3D11 else D3D12),
                        ResizeSwapChain_call (active s)
                          (renderWidth (gSettings s)) (renderHeight (gSettings s))]\<rparr>
               else s)"
  using assms
  by (auto simp: recreate_swap_chains_def ReleaseSwapChain_def ResizeSwapChain_def active_def
      workload_def set_swap_chain_def split: if_splits option.splits)

lemma recreate_swap_chains_ok:
  assumes "l = d3d12 (gSettings s) \<or> (gWorkloadD3D11 s \<noteq> None \<and> gWorkloadD3D12 s \<noteq> None)"
  shows "\<exists>s2. recreate_swap_chains l s = Inr s2"
  using assms
  by (auto simp: recreate_swap_chains_def ReleaseSwapChain_def ResizeSwapChain_def
      workload_def set_swap_chain_def split: if_splits option.splits)

lemma wait_on_gpu_Inr:
  assumes "wait_on_gpu s = Inr s3"
  shows "s3 = (if d3d12 (gSettings s) then emit WaitForReadyToRender_call s else s)"
  using assms
  by (auto simp: wait_on_gpu_def WaitForReadyToRender_def emit_def split: if_splits option.splits)

lemma wait_on_gpu_ok:
  assumes "backend_ok s"
  shows "\<exists>s3. wait_on_gpu s = Inr s3"
  using assms
  by (auto simp: wait_on_gpu_def WaitForReadyToRender_def backend_ok_def active_def
      split: if_splits option.splits)

lemma render_Inr:
  assumes "render s = Inr s4"
  shows "\<exists>sc. workload (active s) s = Some sc
           \<and> s4 = emit (Render_call (active s) sc (flt (frameTime s))) s"
  using assms
  by (auto simp: render_def Render_def emit_def active_def split: if_splits option.splits)

lemma render_ok:
  assumes "backend_ok s"
  shows "\<exists>s4. render s = Inr s4"
  using assms
  by (auto simp: render_def Render_def backend_ok_def active_def split: if_splits option.splits)

lemma tick_phases:
  assumes "tick s inp = Continue s' \<or> tick s inp = ReturnCloseAfter s'"
  shows "\<exists>s1 s2 s3 s4.
           PeekMessage_loop s (messages inp) = Drained s1
         \<and> recreate_swap_chains (d3d12 (gSettings s)) s1 = Inr s2
         \<and> wait_on_gpu (ProcessInertia (inertia inp) s2) = Inr s3
         \<and> render (update_gui (rawFrameTime (count inp) s3) (get_time_delta (count inp) s3)) = Inr s4
         \<and> tick s inp = all_done (frame_lock_wait (count inp) (afterRenderCount inp) s4)"
  using assms
  by (auto simp: tick_def Let_def split: drained.splits sum.splits)

lemma drain_quit_effect:
  "PeekMessage_loop s ms = QuitSeen code s1 \<Longrightarrow> message_effect s s1"
proof (induction ms arbitrary: s)
  case Nil
  then show ?case by simp
next
  case (Cons m ms)
  show ?case
  proof (cases "is_WM_QUIT m")
    case True
    from PeekMessage_loop_quit [OF True, of s ms] Cons.prems have "s1 = emit Cleanup s"
      by auto
    then show ?thesis
      by (simp add: message_effect_def emit_def loop_vars_def fixed_settings_def workload_upd)
  next
    case False
    from Cons.prems obtain s2 where
      w: "WindowProc s m = Inr s2" and d: "PeekMessage_loop s2 ms = QuitSeen code s1"
      unfolding PeekMessage_loop_step [OF False] by (auto split: sum.splits)
    from WindowProc_effect [OF w] Cons.IH [OF d] show ?thesis
      by (rule message_effect_trans)
  qed
qed

lemma send_all_effect:
  "send_all s ms = Inr s1 \<Longrightarrow> message_effect s s1"
proof (induction ms arbitrary: s)
  case Nil
  then show ?case by (simp add: message_effect_refl)
next
  case (Cons m ms)
  from Cons.prems obtain s2 where
    w: "WindowProc s m = Inr s2" and d: "send_all s2 ms = Inr s1"
    by (auto split: sum.splits)
  from WindowProc_effect [OF w] Cons.IH [OF d] show ?case
    by (rule message_effect_trans)
qed

lemma send_all_ok:
  "backend_ok s \<Longrightarrow> \<exists>s1. send_all s ms = Inr s1 \<and> backend_ok s1"
proof (induction ms arbitrary: s)
  case Nil
  then show ?case by simp
next
  case (Cons m ms)
  from WindowProc_ok [OF Cons.prems, of m] obtain s2 where
    w: "WindowProc s m = Inr s2" and ok: "backend_ok s2" by blast
  from Cons.IH [OF ok] w show ?case by simp
qed

lemma message_effect_render_calls:
  "message_effect s s1 \<Longrightarrow> render_calls (events s1) = render_calls (events s)"
  by (auto simp: message_effect_def render_calls_append)

lemma message_effect_sleep_calls:
  "message_effect s s1 \<Longrightarrow> sleep_calls (events s1) = sleep_calls (events s)"
  by (auto simp: message_effect_def sleep_calls_append)

lemma message_effect_fields:
  assumes "message_effect s s1"
  shows "perfCounterFreq s1 = perfCounterFreq s" "lastPerfCount s1 = lastPerfCount s"
    "elapsedTime s1 = elapsedTime s" "timeInterval s1 = timeInterval s"
    "frameTime s1 = frameTime s" "sumFPS s1 = sumFPS s" "currentFPS s1 = currentFPS s"
    "minFPS s1 = minFPS s" "maxFPS s1 = maxFPS s" "numFrames s1 = numFrames s"
    "fpsHistoryVector s1 = fpsHistoryVector s" "files s1 = files s"
    "closeAfterSeconds (gSettings s1) = closeAfterSeconds (gSettings s)"
    "lockedFrameRate (gSettings s1) = lockedFrameRate (gSettings s)"
    "statsCsvFileName (gSettings s1) = statsCsvFileName (gSettings s)"
    "statsSummaryCsvFileName (gSettings s1) = statsSummaryCsvFileName (gSettings s)"
  using assms by (simp_all add: message_effect_def loop_vars_def fixed_settings_def)

lemma main_init_Inr:
  assumes "main_init st cam a11 a12 f4 wa sent freq cnt = Inr r"
  shows "\<exists>s. r = Inr s \<and> backend_ok s
           \<and> (\<forall>b. workload b s \<noteq> Some ReleasedSwapChain)
           \<and> render_calls (events s) = [] \<and> sleep_calls (events s) = []
           \<and> loop_vars s = (freq, cnt, 0, 0, 0, 0, 0, 99999999, 0, 0, [], [])
           \<and> closeAfterSeconds (gSettings s) = closeAfterSeconds st
           \<and> lockedFrameRate (gSettings s) = lockedFrameRate st"
proof -
  define w11 where "w11 = (if a11 then Some NoSwapChain else None)"
  define w12 where "w12 = (if a12 then Some NoSwapChain else None)"
  define s0 where "s0 =
     \<lparr> gSettings = st\<lparr>d3d12 := (w12 \<noteq> None)\<rparr>, gCamera = cam,
       gWorkloadD3D11 = w11, gWorkloadD3D12 = w12,
       fpsControlText = TextUnset,
       d3d12ControlVisible = None, d3d11ControlVisible = None,
       windowText = TitleInitial,
       perfCounterFreq = freq, lastPerfCount = cnt,
       elapsedTime = 0, timeInterval = 0, frameTime = 0,
       sumFPS = 0, currentFPS = 0, minFPS = 99999999, maxFPS = 0,
       numFrames = 0, fpsHistoryVector = [], events = [], files = [] \<rparr>"
  from assms have avail: "a11 \<or> a12"
    by (auto simp: main_init_def split: if_splits)
  then have ok0: "backend_ok s0"
    by (auto simp: backend_ok_def active_def workload_def s0_def w11_def w12_def)
  from send_all_ok [OF ok0, of sent] obtain s1 where
    sa: "send_all s0 sent = Inr s1" and ok1: "backend_ok s1" by blast
  note eff = send_all_effect [OF sa]
  define s where "s = s1\<lparr>gSettings := (gSettings s1)
                        \<lparr>statsCsvFileName :=
                           (if statsCsvFileName (gSettings s1) = ''''
                            then ''asteroid_summary_stats.csv''
                            else statsCsvFileName (gSettings s1)),
                         statsSummaryCsvFileName :=
                           (if statsSummaryCsvFileName (gSettings s1) = ''''
                            then ''asteroid_stats.csv''
                            else statsSummaryCsvFileName (gSettings s1))\<rparr>\<rparr>"
  from assms sa have r: "r = Inr s"
    by (auto simp: main_init_def Let_def s_def s0_def w11_def w12_def split: if_splits)
  have rel0: "workload b s0 \<noteq> Some ReleasedSwapChain" for b
    by (cases b) (simp_all add: workload_def s0_def w11_def w12_def)
  from eff rel0 have rel1: "workload b s1 \<noteq> Some ReleasedSwapChain" for b
    by (auto simp: message_effect_def)
  have "backend_ok s"
    using ok1 by (simp add: s_def backend_ok_def workload_upd active_def)
  moreover have "workload b s \<noteq> Some ReleasedSwapChain" for b
    using rel1 [of b] by (simp add: s_def workload_upd)
  moreover have "render_calls (events s) = []" "sleep_calls (events s) = []"
    using message_effect_render_calls [OF eff] message_effect_sleep_calls [OF eff]
    by (simp_all add: s_def s0_def)
  moreover have "loop_vars s = (freq, cnt, 0, 0, 0, 0, 0, 99999999, 0, 0, [], [])"
    using eff by (simp add: message_effect_def s_def loop_vars_def s0_def)
  moreover have "closeAfterSeconds (gSettings s) = closeAfterSeconds st"
    "lockedFrameRate (gSettings s) = lockedFrameRate st"
    using eff by (simp_all add: message_effect_def s_def fixed_settings_def s0_def)
  ultimately show ?thesis using r by blast
qed

lemma update_gui_shape:
  "update_gui raw s =
     s\<lparr>windowText := windowText (update_gui raw s),
       currentFPS := currentFPS (update_gui raw s),
       numFrames := numFrames (update_gui raw s),
       sumFPS := sumFPS (update_gui raw s),
       minFPS := minFPS (update_gui raw s),
       maxFPS := maxFPS (update_gui raw s),
       fpsHistoryVector := fpsHistoryVector (update_gui raw s),
       timeInterval := timeInterval (update_gui raw s),
       fpsControlText := fpsControlText (update_gui raw s),
       d3d12ControlVisible := d3d12ControlVisible (update_gui raw s),
       d3d11ControlVisible := d3d11ControlVisible (update_gui raw s)\<rparr>"
  by (simp add: update_gui_def Let_def)

lemma update_gui_unchanged:
  "gSettings (update_gui raw s) = gSettings s"
  "gCamera (update_gui raw s) = gCamera s"
  "gWorkloadD3D11 (update_gui raw s) = gWorkloadD3D11 s"
  "gWorkloadD3D12 (update_gui raw s) = gWorkloadD3D12 s"
  "perfCounterFreq (update_gui raw s) = perfCounterFreq s"
  "lastPerfCount (update_gui raw s) = lastPerfCount s"
  "elapsedTime (update_gui raw s) = elapsedTime s"
  "frameTime (update_gui raw s) = frameTime s"
  "events (update_gui raw s) = events s"
  "files (update_gui raw s) = files s"
  by (subst update_gui_shape, simp)+

lemma update_gui_currentFPS:
  "currentFPS (update_gui raw s) =
     (if lockFrameRate (gSettings s) then currentFPS s
      else if frameTime s \<noteq> 0 then dbl (1 / frameTime s) else currentFPS s)"
  by (simp add: update_gui_def Let_def)

lemma update_gui_numFrames:
  "numFrames (update_gui raw s) =
     (if closeAfterSeconds (gSettings s) > 0 then numFrames s + 1 else numFrames s)"
  by (simp add: update_gui_def Let_def)

lemma update_gui_sumFPS:
  "sumFPS (update_gui raw s) =
     (if closeAfterSeconds (gSettings s) > 0 \<and> 100 < numFrames s + 1
      then dbl (sumFPS s + currentFPS (update_gui raw s)) else sumFPS s)"
  by (simp add: update_gui_def Let_def)

lemma update_gui_minFPS:
  "minFPS (update_gui raw s) =
     (if closeAfterSeconds (gSettings s) > 0 \<and> 100 < numFrames s + 1
         \<and> currentFPS (update_gui raw s) < minFPS s
      then currentFPS (update_gui raw s) else minFPS s)"
  by (simp add: update_gui_def Let_def)

lemma update_gui_maxFPS:
  "maxFPS (update_gui raw s) =
     (if closeAfterSeconds (gSettings s) > 0 \<and> 100 < numFrames s + 1
         \<and> currentFPS (update_gui raw s) > maxFPS s
      then currentFPS (update_gui raw s) else maxFPS s)"
  by (simp add: update_gui_def Let_def)

lemma update_gui_timeInterval:
  "timeInterval (update_gui raw s) =
     (if closeAfterSeconds (gSettings s) > 0
      then (if dbl (timeInterval s + dbl (raw * 1000)) \<ge> 1000 then 0
            else dbl (timeInterval s + dbl (raw * 1000)))
      else timeInterval s)"
  by (simp add: update_gui_def Let_def)

lemma update_gui_fpsHistoryVector:
  "fpsHistoryVector (update_gui raw s) =
     fpsHistoryVector s @
       (if closeAfterSeconds (gSettings s) > 0 \<and> dbl (timeInterval s + dbl (raw * 1000)) \<ge> 1000
        then [(elapsedTime s, dbl (frameTime s * 1000), dbl (raw * 1000))] else [])"
  by (simp add: update_gui_def Let_def)

lemma get_time_delta_fields:
  "gSettings (get_time_delta c s) = gSettings s"
  "gCamera (get_time_delta c s) = gCamera s"
  "gWorkloadD3D11 (get_time_delta c s) = gWorkloadD3D11 s"
  "gWorkloadD3D12 (get_time_delta c s) = gWorkloadD3D12 s"
  "perfCounterFreq (get_time_delta c s) = perfCounterFreq s"
  "lastPerfCount (get_time_delta c s) = c"
  "elapsedTime (get_time_delta c s) = dbl (elapsedTime s + rawFrameTime c s)"
  "frameTime (get_time_delta c s) =
     dbl (dbl (f_0_2 * rawFrameTime c s) + dbl (dbl (1 - f_0_2) * frameTime s))"
  "events (get_time_delta c s) = events s"
  "files (get_time_delta c s) = files s"
  "timeInterval (get_time_delta c s) = timeInterval s"
  "sumFPS (get_time_delta c s) = sumFPS s"
  "currentFPS (get_time_delta c s) = currentFPS s"
  "minFPS (get_time_delta c s) = minFPS s"
  "maxFPS (get_time_delta c s) = maxFPS s"
  "numFrames (get_time_delta c s) = numFrames s"
  "fpsHistoryVector (get_time_delta c s) = fpsHistoryVector s"
  by (simp_all add: get_time_delta_def Let_def)

lemma frame_lock_wait_shape:
  "frame_lock_wait c a s =
     s\<lparr>events := events s @
         (if lockFrameRate (gSettings s) \<and> deltaMs c a s > 1
          then [Sleep_call (nat \<lfloor>deltaMs c a s\<rfloor>)] else [])\<rparr>"
  by (simp add: frame_lock_wait_def emit_def)

lemma deltaMs_cong:
  "perfCounterFreq s2 = perfCounterFreq s \<Longrightarrow>
   lockedFrameRate (gSettings s2) = lockedFrameRate (gSettings s) \<Longrightarrow>
   deltaMs c a s2 = deltaMs c a s"
  by (simp add: deltaMs_def)

lemma rawFrameTime_cong:
  "perfCounterFreq s2 = perfCounterFreq s \<Longrightarrow> lastPerfCount s2 = lastPerfCount s \<Longrightarrow>
   rawFrameTime c s2 = rawFrameTime c s"
  by (simp add: rawFrameTime_def)

lemma all_done_cases:
  assumes "all_done s5 = Continue s' \<or> all_done s5 = ReturnCloseAfter s'"
  shows "(all_done s5 = Continue s' \<and> s' = s5
            \<and> \<not> (closeAfterSeconds (gSettings s5) > 0 \<and> elapsedTime s5 > closeAfterSeconds (gSettings s5)))
       \<or> (all_done s5 = ReturnCloseAfter s'
            \<and> s' = emit SendMessage_WM_CLOSE (s5\<lparr>files := files s5 @ [summary_file s5, series_file s5]\<rparr>)
            \<and> closeAfterSeconds (gSettings s5) > 0 \<and> elapsedTime s5 > closeAfterSeconds (gSettings s5))"
  using assms by (auto simp: all_done_def split: if_splits)

text \<open>The state before the time measurement of an iteration that gets through.\<close>

lemma tick_chain:
  assumes t: "tick s inp = Continue s' \<or> tick s inp = ReturnCloseAfter s'"
  shows "\<exists>s1 s3 sc.
      PeekMessage_loop s (messages inp) = Drained s1
    \<and> message_effect s s1
    \<and> loop_vars s3 = loop_vars s1
    \<and> gSettings s3 = gSettings s1
    \<and> events s3 = events s1
         @ (if d3d12 (gSettings s) \<noteq> d3d12 (gSettings s1)
            then [ReleaseSwapChain_call (if d3d12 (gSettings s1) then D3D11 else D3D12),
                  ResizeSwapChain_call (active s1)
                    (renderWidth (gSettings s1)) (renderHeight (gSettings s1))]
            else [])
         @ (if d3d12 (gSettings s1) then [WaitForReadyToRender_call] else [])
    \<and> (if d3d12 (gSettings s) \<noteq> d3d12 (gSettings s1)
        then workload (active s1) s3
               = Some (SwapChain (renderWidth (gSettings s1)) (renderHeight (gSettings s1)))
           \<and> workload (if d3d12 (gSettings s1) then D3D11 else D3D12) s3 = Some ReleasedSwapChain
        else (\<forall>b. workload b s3 = workload b s1))
    \<and> workload (active s1) s3 = Some sc
    \<and> tick s inp =
        all_done (frame_lock_wait (count inp) (afterRenderCount inp)
          (emit (Render_call (active s1) sc
                   (flt (frameTime (update_gui (rawFrameTime (count inp) s3) (get_time_delta (count inp) s3)))))
             (update_gui (rawFrameTime (count inp) s3) (get_time_delta (count inp) s3))))"
proof -
  from tick_phases [OF t] obtain s1 s2 s3 s4 where
    d: "PeekMessage_loop s (messages inp) = Drained s1"
    and r: "recreate_swap_chains (d3d12 (gSettings s)) s1 = Inr s2"
    and w: "wait_on_gpu (ProcessInertia (inertia inp) s2) = Inr s3"
    and rn: "render (update_gui (rawFrameTime (count inp) s3) (get_time_delta (count inp) s3)) = Inr s4"
    and ad: "tick s inp = all_done (frame_lock_wait (count inp) (afterRenderCount inp) s4)"
    by blast
  let ?u = "update_gui (rawFrameTime (count inp) s3) (get_time_delta (count inp) s3)"
  note s2 = recreate_swap_chains_Inr [OF r]
  note s3 = wait_on_gpu_Inr [OF w]
  from render_Inr [OF rn] obtain sc where
    sc: "workload (active ?u) ?u = Some sc" and s4: "s4 = emit (Render_call (active ?u) sc (flt (frameTime ?u))) ?u"
    by blast
  have set3: "gSettings s3 = gSettings s1"
    by (simp add: s3 s2 ProcessInertia_def emit_def set_swap_chain_def split: backend.splits)
  have lv3: "loop_vars s3 = loop_vars s1"
    by (simp add: s3 s2 ProcessInertia_def emit_def set_swap_chain_def loop_vars_def split: backend.splits)
  have setu: "gSettings ?u = gSettings s3"
    by (simp add: update_gui_def get_time_delta_def Let_def)
  have wlu: "workload b ?u = workload b s3" for b
    by (simp add: update_gui_def get_time_delta_def Let_def workload_def split: backend.splits)
  have actu: "active ?u = active s1"
    by (simp add: active_def setu set3)
  have ev3: "events s3 = events s1
         @ (if d3d12 (gSettings s) \<noteq> d3d12 (gSettings s1)
            then [ReleaseSwapChain_call (if d3d12 (gSettings s1) then D3D11 else D3D12),
                  ResizeSwapChain_call (active s1)
                    (renderWidth (gSettings s1)) (renderHeight (gSettings s1))]
            else [])
         @ (if d3d12 (gSettings s1) then [WaitForReadyToRender_call] else [])"
    by (simp add: s3 s2 ProcessInertia_def emit_def set_swap_chain_def split: backend.splits)
  have wl3: "(if d3d12 (gSettings s) \<noteq> d3d12 (gSettings s1)
        then workload (active s1) s3
               = Some (SwapChain (renderWidth (gSettings s1)) (renderHeight (gSettings s1)))
           \<and> workload (if d3d12 (gSettings s1) then D3D11 else D3D12) s3 = Some ReleasedSwapChain
        else (\<forall>b. workload b s3 = workload b s1))"
    by (simp add: s3 s2 ProcessInertia_def emit_def set_swap_chain_def workload_def active_def
        split: backend.splits)
  from sc have sc3: "workload (active s1) s3 = Some sc"
    by (simp add: actu wlu)
  from ad s4 have "tick s inp = all_done (frame_lock_wait (count inp) (afterRenderCount inp)
          (emit (Render_call (active s1) sc (flt (frameTime ?u))) ?u))"
    by (simp add: actu)
  with d drain_effect [OF d] lv3 set3 ev3 wl3 sc3 show ?thesis
    by blast
qed

lemma backend_ok_iff:
  "backend_ok s = (if d3d12 (gSettings s) then gWorkloadD3D12 s \<noteq> None
                   else gWorkloadD3D11 s \<noteq> None)"
  by (simp add: backend_ok_def active_def workload_def)

lemma backend_ok_cong:
  "gSettings s2 = gSettings s \<Longrightarrow> (\<And>b. workload b s = None \<longleftrightarrow> workload b s2 = None)
     \<Longrightarrow> backend_ok s \<Longrightarrow> backend_ok s2"
  by (simp add: backend_ok_def active_def)

lemma tick_succeeds:
  assumes ok: "backend_ok s" and d: "PeekMessage_loop s (messages inp) = Drained s1"
  shows "\<exists>s'. tick s inp = Continue s' \<or> tick s inp = ReturnCloseAfter s'"
proof -
  from drain_ok [OF ok, of "messages inp"] d have ok1: "backend_ok s1" by simp
  note eff = drain_effect [OF d]
  have both: "gWorkloadD3D11 s1 \<noteq> None \<and> gWorkloadD3D12 s1 \<noteq> None"
    if "d3d12 (gSettings s) \<noteq> d3d12 (gSettings s1)"
  proof -
    from eff have same: "(workload b s1 = None) = (workload b s = None)" for b
      by (simp add: message_effect_def)
    from that ok ok1 same [of D3D11] same [of D3D12] show ?thesis
      by (auto simp: backend_ok_def active_def workload_def split: if_splits)
  qed
  then obtain s2 where r: "recreate_swap_chains (d3d12 (gSettings s)) s1 = Inr s2"
    using recreate_swap_chains_ok [of "d3d12 (gSettings s)" s1] by blast
  note s2 = recreate_swap_chains_Inr [OF r]
  have ok2: "backend_ok (ProcessInertia (inertia inp) s2)"
    using ok1 both
    by (auto simp: s2 backend_ok_def active_def workload_def ProcessInertia_def set_swap_chain_def
        split: if_splits backend.splits)
  from wait_on_gpu_ok [OF ok2] obtain s3 where
    w: "wait_on_gpu (ProcessInertia (inertia inp) s2) = Inr s3" by blast
  have ok3: "backend_ok s3"
    using ok2 by (simp add: wait_on_gpu_Inr [OF w] backend_ok_def workload_upd active_upd)
  let ?u = "update_gui (rawFrameTime (count inp) s3) (get_time_delta (count inp) s3)"
  have "backend_ok ?u"
  proof -
    have "gSettings ?u = gSettings s3" "gWorkloadD3D11 ?u = gWorkloadD3D11 s3"
      "gWorkloadD3D12 ?u = gWorkloadD3D12 s3"
      by (simp_all add: update_gui_def get_time_delta_def Let_def)
    with ok3 show ?thesis
      by (simp add: backend_ok_iff)
  qed
  from render_ok [OF this] obtain s4 where rn: "render ?u = Inr s4" by blast
  from d r w rn have "tick s inp = all_done (frame_lock_wait (count inp) (afterRenderCount inp) s4)"
    by (simp add: tick_def)
  then show ?thesis
    by (auto simp: all_done_def)
qed

lemma tick_never_fails:
  assumes ok: "backend_ok s"
  shows "tick s inp \<noteq> Failed e"
proof (cases "PeekMessage_loop s (messages inp)")
  case (Drained s1)
  from tick_succeeds [OF ok Drained] show ?thesis by auto
next
  case (QuitSeen code s1)
  then show ?thesis by (simp add: tick_def)
next
  case (DrainFailed e')
  with drain_ok [OF ok, of "messages inp"] show ?thesis by simp
qed

lemma tick_quit:
  assumes "tick s inp = ReturnQuit code s'"
  shows "PeekMessage_loop s (messages inp) = QuitSeen code s'"
  using assms
  by (auto simp: tick_def Let_def all_done_def split: drained.splits sum.splits if_splits)

text \<open>What an iteration that gets through does, field by field.\<close>

lemma tick_fields:
  assumes t: "tick s inp = Continue s' \<or> tick s inp = ReturnCloseAfter s'"
  defines "r \<equiv> rawFrameTime (count inp) s"
  defines "D \<equiv> closeAfterSeconds (gSettings s)"
  shows "\<exists>s1 sc.
      PeekMessage_loop s (messages inp) = Drained s1
    \<and> message_effect s s1
    \<and> gSettings s' = gSettings s1
    \<and> perfCounterFreq s' = perfCounterFreq s
    \<and> lastPerfCount s' = count inp
    \<and> elapsedTime s' = dbl (elapsedTime s + r)
    \<and> frameTime s' = dbl (dbl (f_0_2 * r) + dbl (dbl (1 - f_0_2) * frameTime s))
    \<and> currentFPS s' = (if lockFrameRate (gSettings s1) then currentFPS s
                        else if frameTime s' \<noteq> 0 then dbl (1 / frameTime s') else currentFPS s)
    \<and> numFrames s' = (if D > 0 then numFrames s + 1 else numFrames s)
    \<and> sumFPS s' = (if D > 0 \<and> 100 < numFrames s + 1 then dbl (sumFPS s + currentFPS s') else sumFPS s)
    \<and> minFPS s' = (if D > 0 \<and> 100 < numFrames s + 1 \<and> currentFPS s' < minFPS s
                    then currentFPS s' else minFPS s)
    \<and> maxFPS s' = (if D > 0 \<and> 100 < numFrames s + 1 \<and> currentFPS s' > maxFPS s
                    then currentFPS s' else maxFPS s)
    \<and> timeInterval s' = (if D > 0
                           then (if dbl (timeInterval s + dbl (r * 1000)) \<ge> 1000 then 0
                                 else dbl (timeInterval s + dbl (r * 1000)))
                           else timeInterval s)
    \<and> fpsHistoryVector s' = fpsHistoryVector s @
          (if D > 0 \<and> dbl (timeInterval s + dbl (r * 1000)) \<ge> 1000
           then [(elapsedTime s', dbl (frameTime s' * 1000), dbl (r * 1000))] else [])
    \<and> (if d3d12 (gSettings s) \<noteq> d3d12 (gSettings s1)
        then workload (active s1) s'
               = Some (SwapChain (renderWidth (gSettings s1)) (renderHeight (gSettings s1)))
           \<and> workload (active s) s' = Some ReleasedSwapChain
        else (\<forall>b. workload b s' = workload b s1))
    \<and> workload (active s1) s' = Some sc
    \<and> events s' = events s1
         @ (if d3d12 (gSettings s) \<noteq> d3d12 (gSettings s1)
            then [ReleaseSwapChain_call (active s),
                  ResizeSwapChain_call (active s1)
                    (renderWidth (gSettings s1)) (renderHeight (gSettings s1))]
            else [])
         @ (if d3d12 (gSettings s1) then [WaitForReadyToRender_call] else [])
         @ [Render_call (active s1) sc (flt (frameTime s'))]
         @ (if lockFrameRate (gSettings s1)
                 \<and> deltaMs (count inp) (afterRenderCount inp) s > 1
            then [Sleep_call (nat \<lfloor>deltaMs (count inp) (afterRenderCount inp) s\<rfloor>)] else [])
         @ (if D > 0 \<and> elapsedTime s' > D then [SendMessage_WM_CLOSE] else [])
    \<and> files s' = files s @ (if D > 0 \<and> elapsedTime s' > D
                              then [summary_file s', series_file s'] else [])
    \<and> tick s inp = (if D > 0 \<and> elapsedTime s' > D then ReturnCloseAfter s' else Continue s')"
proof -
  from tick_chain [OF t] obtain s1 s3 sc where
    d: "PeekMessage_loop s (messages inp) = Drained s1"
    and eff: "message_effect s s1"
    and lv3: "loop_vars s3 = loop_vars s1"
    and set3: "gSettings s3 = gSettings s1"
    and ev3: "events s3 = events s1
         @ (if d3d12 (gSettings s) \<noteq> d3d12 (gSettings s1)
            then [ReleaseSwapChain_call (if d3d12 (gSettings s1) then D3D11 else D3D12),
                  ResizeSwapChain_call (active s1)
                    (renderWidth (gSettings s1)) (renderHeight (gSettings s1))]
            else [])
         @ (if d3d12 (gSettings s1) then [WaitForReadyToRender_call] else [])"
    and wl3: "(if d3d12 (gSettings s) \<noteq> d3d12 (gSettings s1)
        then workload (active s1) s3
               = Some (SwapChain (renderWidth (gSettings s1)) (renderHeight (gSettings s1)))
           \<and> workload (if d3d12 (gSettings s1) then D3D11 else D3D12) s3 = Some ReleasedSwapChain
        else (\<forall>b. workload b s3 = workload b s1))"
    and sc3: "workload (active s1) s3 = Some sc"
    and ad: "tick s inp =
        all_done (frame_lock_wait (count inp) (afterRenderCount inp)
          (emit (Render_call (active s1) sc
                   (flt (frameTime (update_gui (rawFrameTime (count inp) s3) (get_time_delta (count inp) s3)))))
             (update_gui (rawFrameTime (count inp) s3) (get_time_delta (count inp) s3))))"
    by blast
  define u where "u = update_gui (rawFrameTime (count inp) s3) (get_time_delta (count inp) s3)"
  define s5 where "s5 = frame_lock_wait (count inp) (afterRenderCount inp)
                          (emit (Render_call (active s1) sc (flt (frameTime u))) u)"
  from lv3 eff have lv: "loop_vars s3 = loop_vars s"
    by (simp add: message_effect_def)
  then have f3: "perfCounterFreq s3 = perfCounterFreq s" "lastPerfCount s3 = lastPerfCount s"
    "elapsedTime s3 = elapsedTime s" "timeInterval s3 = timeInterval s"
    "frameTime s3 = frameTime s" "sumFPS s3 = sumFPS s" "currentFPS s3 = currentFPS s"
    "minFPS s3 = minFPS s" "maxFPS s3 = maxFPS s" "numFrames s3 = numFrames s"
    "fpsHistoryVector s3 = fpsHistoryVector s" "files s3 = files s"
    by (simp_all add: loop_vars_def)
  have r3: "rawFrameTime (count inp) s3 = r"
    unfolding r_def by (rule rawFrameTime_cong) (simp_all add: f3)
  from eff have D1: "closeAfterSeconds (gSettings s1) = D"
    "lockedFrameRate (gSettings s1) = lockedFrameRate (gSettings s)"
    by (simp_all add: message_effect_def fixed_settings_def D_def)
  have uf: "gSettings u = gSettings s1" "perfCounterFreq u = perfCounterFreq s"
    "lastPerfCount u = count inp" "elapsedTime u = dbl (elapsedTime s + r)"
    "frameTime u = dbl (dbl (f_0_2 * r) + dbl (dbl (1 - f_0_2) * frameTime s))"
    "events u = events s3" "files u = files s"
    "gWorkloadD3D11 u = gWorkloadD3D11 s3" "gWorkloadD3D12 u = gWorkloadD3D12 s3"
    by (simp_all add: u_def update_gui_unchanged get_time_delta_fields set3 f3 r3)
  have us: "currentFPS u = (if lockFrameRate (gSettings s1) then currentFPS s
                        else if frameTime u \<noteq> 0 then dbl (1 / frameTime u) else currentFPS s)"
    "numFrames u = (if D > 0 then numFrames s + 1 else numFrames s)"
    "sumFPS u = (if D > 0 \<and> 100 < numFrames s + 1 then dbl (sumFPS s + currentFPS u) else sumFPS s)"
    "timeInterval u = (if D > 0
                           then (if dbl (timeInterval s + dbl (r * 1000)) \<ge> 1000 then 0
                                 else dbl (timeInterval s + dbl (r * 1000)))
                           else timeInterval s)"
    "fpsHistoryVector u = fpsHistoryVector s @
          (if D > 0 \<and> dbl (timeInterval s + dbl (r * 1000)) \<ge> 1000
           then [(elapsedTime u, dbl (frameTime u * 1000), dbl (r * 1000))] else [])"
    unfolding u_def
    by (simp_all add: update_gui_currentFPS update_gui_numFrames update_gui_sumFPS
        update_gui_timeInterval update_gui_fpsHistoryVector update_gui_unchanged
        get_time_delta_fields set3 f3 r3 D1)
  have um: "minFPS u = (if D > 0 \<and> 100 < numFrames s + 1 \<and> currentFPS u < minFPS s
                    then currentFPS u else minFPS s)"
    "maxFPS u = (if D > 0 \<and> 100 < numFrames s + 1 \<and> currentFPS u > maxFPS s
                 then currentFPS u else maxFPS s)"
    unfolding u_def
    by (simp_all add: update_gui_minFPS update_gui_maxFPS get_time_delta_fields set3 f3 D1)
  have dm: "deltaMs (count inp) (afterRenderCount inp) (emit (Render_call (active s1) sc (flt (frameTime u))) u)
      = deltaMs (count inp) (afterRenderCount inp) s"
    by (rule deltaMs_cong) (simp_all add: emit_def uf D1)
  have s5: "s5 = u\<lparr>events := events s3 @ [Render_call (active s1) sc (flt (frameTime u))]
         @ (if lockFrameRate (gSettings s1)
                 \<and> deltaMs (count inp) (afterRenderCount inp) s > 1
            then [Sleep_call (nat \<lfloor>deltaMs (count inp) (afterRenderCount inp) s\<rfloor>)] else [])\<rparr>"
    unfolding s5_def
    by (subst frame_lock_wait_shape) (simp add: dm, simp add: emit_def uf)
  from ad have ad5: "tick s inp = all_done s5"
    by (simp add: s5_def u_def)
  define closing where "closing = (D > 0 \<and> elapsedTime u > D)"
  have cl5: "(closeAfterSeconds (gSettings s5) > 0 \<and> elapsedTime s5 > closeAfterSeconds (gSettings s5))
      = closing"
    by (simp add: s5 uf D1 closing_def)
  from t ad5 have "all_done s5 = Continue s' \<or> all_done s5 = ReturnCloseAfter s'"
    by simp
  from all_done_cases [OF this] cl5 have s':
    "s' = (if closing
           then emit SendMessage_WM_CLOSE (s5\<lparr>files := files s5 @ [summary_file s5, series_file s5]\<rparr>)
           else s5)"
    and res: "all_done s5 = (if closing then ReturnCloseAfter s' else Continue s')"
    by auto
  have same: "gSettings s' = gSettings u" "perfCounterFreq s' = perfCounterFreq u"
    "lastPerfCount s' = lastPerfCount u" "elapsedTime s' = elapsedTime u"
    "frameTime s' = frameTime u" "currentFPS s' = currentFPS u" "numFrames s' = numFrames u"
    "sumFPS s' = sumFPS u" "timeInterval s' = timeInterval u"
    "fpsHistoryVector s' = fpsHistoryVector u" "minFPS s' = minFPS u" "maxFPS s' = maxFPS u"
    "gWorkloadD3D11 s' = gWorkloadD3D11 u" "gWorkloadD3D12 s' = gWorkloadD3D12 u"
    by (simp_all add: s' s5 emit_def)
  have wl: "workload b s' = workload b s3" for b
    by (cases b) (simp_all add: workload_def same uf)
  have sf5: "summary_file s5 = summary_file s'" "series_file s5 = series_file s'"
    by (simp_all add: summary_file_def series_file_def averageFPS_def same s5)
  have "files s' = files s5 @ (if closing then [summary_file s5, series_file s5] else [])"
    by (simp add: s' emit_def)
  moreover have "files s5 = files s"
    by (simp add: s5 uf)
  ultimately have files:
    "files s' = files s @ (if closing then [summary_file s', series_file s'] else [])"
    by (simp only: sf5)
  have events: "events s' = events s3 @ [Render_call (active s1) sc (flt (frameTime s'))]
         @ (if lockFrameRate (gSettings s1)
                 \<and> deltaMs (count inp) (afterRenderCount inp) s > 1
            then [Sleep_call (nat \<lfloor>deltaMs (count inp) (afterRenderCount inp) s\<rfloor>)] else [])
         @ (if closing then [SendMessage_WM_CLOSE] else [])"
    by (simp add: s' s5 emit_def same)
  have old: "(if d3d12 (gSettings s1) then D3D11 else D3D12) = active s"
    if "d3d12 (gSettings s) \<noteq> d3d12 (gSettings s1)"
    using that by (auto simp: active_def)
  have c1: "gSettings s' = gSettings s1 \<and> perfCounterFreq s' = perfCounterFreq s
    \<and> lastPerfCount s' = count inp \<and> elapsedTime s' = dbl (elapsedTime s + r)
    \<and> frameTime s' = dbl (dbl (f_0_2 * r) + dbl (dbl (1 - f_0_2) * frameTime s))"
    by (simp add: same uf)
  have c2: "currentFPS s' = (if lockFrameRate (gSettings s1) then currentFPS s
                        else if frameTime s' \<noteq> 0 then dbl (1 / frameTime s') else currentFPS s)
    \<and> numFrames s' = (if D > 0 then numFrames s + 1 else numFrames s)
    \<and> sumFPS s' = (if D > 0 \<and> 100 < numFrames s + 1 then dbl (sumFPS s + currentFPS s') else sumFPS s)
    \<and> timeInterval s' = (if D > 0
                           then (if dbl (timeInterval s + dbl (r * 1000)) \<ge> 1000 then 0
                                 else dbl (timeInterval s + dbl (r * 1000)))
                           else timeInterval s)
    \<and> fpsHistoryVector s' = fpsHistoryVector s @
          (if D > 0 \<and> dbl (timeInterval s + dbl (r * 1000)) \<ge> 1000
           then [(elapsedTime s', dbl (frameTime s' * 1000), dbl (r * 1000))] else [])"
    unfolding same using us by simp
  have c6: "minFPS s' = (if D > 0 \<and> 100 < numFrames s + 1 \<and> currentFPS s' < minFPS s
                    then currentFPS s' else minFPS s)
    \<and> maxFPS s' = (if D > 0 \<and> 100 < numFrames s + 1 \<and> currentFPS s' > maxFPS s
                    then currentFPS s' else maxFPS s)"
    unfolding same using um by simp
  have c3: "(if d3d12 (gSettings s) \<noteq> d3d12 (gSettings s1)
        then workload (active s1) s'
               = Some (SwapChain (renderWidth (gSettings s1)) (renderHeight (gSettings s1)))
           \<and> workload (active s) s' = Some ReleasedSwapChain
        else (\<forall>b. workload b s' = workload b s1))
    \<and> workload (active s1) s' = Some sc"
    using wl3 sc3 old by (auto simp: wl split: if_splits)
  have c4: "events s' = events s1
         @ (if d3d12 (gSettings s) \<noteq> d3d12 (gSettings s1)
            then [ReleaseSwapChain_call (active s),
                  ResizeSwapChain_call (active s1)
                    (renderWidth (gSettings s1)) (renderHeight (gSettings s1))]
            else [])
         @ (if d3d12 (gSettings s1) then [WaitForReadyToRender_call] else [])
         @ [Render_call (active s1) sc (flt (frameTime s'))]
         @ (if lockFrameRate (gSettings s1)
                 \<and> deltaMs (count inp) (afterRenderCount inp) s > 1
            then [Sleep_call (nat \<lfloor>deltaMs (count inp) (afterRenderCount inp) s\<rfloor>)] else [])
         @ (if D > 0 \<and> elapsedTime s' > D then [SendMessage_WM_CLOSE] else [])"
    unfolding events ev3 using old by (auto simp: closing_def same)
  have c5: "files s' = files s @ (if D > 0 \<and> elapsedTime s' > D
                              then [summary_file s', series_file s'] else [])
    \<and> tick s inp = (if D > 0 \<and> elapsedTime s' > D then ReturnCloseAfter s' else Continue s')"
    using files res ad5 by (simp add: closing_def same)
  from d eff c1 c2 c6 c3 c4 c5 show ?thesis
    by blast
qed

lemma tick_invariant:
  assumes inv: "loop_invariant s" and fin: "final_state (tick s inp) = Some s'"
  shows "backend_ok s'" and "\<forall>b. (b, ReleasedSwapChain) \<notin> set (render_calls (events s'))"
    and "tick s inp = Continue s' \<Longrightarrow> workload (active s') s' \<noteq> Some ReleasedSwapChain"
proof -
  from inv have ok: "backend_ok s" and nr: "workload (active s) s \<noteq> Some ReleasedSwapChain"
    and rc: "\<forall>b. (b, ReleasedSwapChain) \<notin> set (render_calls (events s))"
    by (simp_all add: loop_invariant_def)
  from fin tick_never_fails [OF ok, of inp] consider
    (quit) code where "tick s inp = ReturnQuit code s'"
    | (through) "tick s inp = Continue s' \<or> tick s inp = ReturnCloseAfter s'"
    by (cases "tick s inp") auto
  then have "backend_ok s' \<and> (\<forall>b. (b, ReleasedSwapChain) \<notin> set (render_calls (events s')))
      \<and> (tick s inp = Continue s' \<longrightarrow> workload (active s') s' \<noteq> Some ReleasedSwapChain)"
  proof cases
    case quit
    note q = tick_quit [OF quit]
    from drain_ok [OF ok, of "messages inp"] q have "backend_ok s'" by simp
    moreover from message_effect_render_calls [OF drain_quit_effect [OF q]] rc
    have "\<forall>b. (b, ReleasedSwapChain) \<notin> set (render_calls (events s'))" by simp
    ultimately show ?thesis using quit by simp
  next
    case through
    from tick_fields [OF through] obtain s1 sc post where
      d: "PeekMessage_loop s (messages inp) = Drained s1"
      and eff: "message_effect s s1"
      and st: "gSettings s' = gSettings s1"
      and wl: "(if d3d12 (gSettings s) \<noteq> d3d12 (gSettings s1)
        then workload (active s1) s'
               = Some (SwapChain (renderWidth (gSettings s1)) (renderHeight (gSettings s1)))
           \<and> workload (active s) s' = Some ReleasedSwapChain
        else (\<forall>b. workload b s' = workload b s1))"
      and sc: "workload (active s1) s' = Some sc"
      and ev: "events s' = events s1
         @ (if d3d12 (gSettings s) \<noteq> d3d12 (gSettings s1)
            then [ReleaseSwapChain_call (active s),
                  ResizeSwapChain_call (active s1)
                    (renderWidth (gSettings s1)) (renderHeight (gSettings s1))]
            else [])
         @ (if d3d12 (gSettings s1) then [WaitForReadyToRender_call] else [])
         @ [Render_call (active s1) sc (flt (frameTime s'))]
         @ (if lockFrameRate (gSettings s1)
                 \<and> deltaMs (count inp) (afterRenderCount inp) s > 1
            then [Sleep_call (nat \<lfloor>deltaMs (count inp) (afterRenderCount inp) s\<rfloor>)] else [])
         @ (if closeAfterSeconds (gSettings s) > 0 \<and> elapsedTime s' > closeAfterSeconds (gSettings s)
            then [SendMessage_WM_CLOSE] else [])"
      by blast
    have act: "active s' = active s1"
      by (simp add: active_def st)
    have scn: "sc \<noteq> ReleasedSwapChain"
    proof (cases "d3d12 (gSettings s) \<noteq> d3d12 (gSettings s1)")
      case True
      with wl sc show ?thesis by auto
    next
      case False
      then have a: "active s1 = active s" by (simp add: active_def)
      from False wl sc have "workload (active s) s1 = Some sc" by (simp add: a)
      with eff nr show ?thesis by (auto simp: message_effect_def)
    qed
    have "render_calls (events s') = render_calls (events s) @ [(active s1, sc)]"
      unfolding ev using message_effect_render_calls [OF eff]
      by (simp add: render_calls_append)
    with rc scn have "\<forall>b. (b, ReleasedSwapChain) \<notin> set (render_calls (events s'))"
      by simp
    moreover from sc have "backend_ok s'"
      by (simp add: backend_ok_def act)
    moreover from sc scn have "workload (active s') s' \<noteq> Some ReleasedSwapChain"
      by (simp add: act)
    ultimately show ?thesis by simp
  qed
  then show "backend_ok s'" and "\<forall>b. (b, ReleasedSwapChain) \<notin> set (render_calls (events s'))"
    and "tick s inp = Continue s' \<Longrightarrow> workload (active s') s' \<noteq> Some ReleasedSwapChain"
    by simp_all
qed

lemma reachable_invariant:
  "reachable s \<Longrightarrow> loop_invariant s"
proof (induction rule: reachable.induct)
  case (enter st cam d3d11Available d3d12Available factory4 warpAdapter sent freq cnt s)
  from main_init_Inr [OF enter] show ?case
    by (auto simp: loop_invariant_def)
next
  case (iterate s inp s1)
  from iterate.hyps(2) have "final_state (tick s inp) = Some s1" by simp
  from tick_invariant [OF iterate.IH this] iterate.hyps(2) show ?case
    by (simp add: loop_invariant_def)
qed

section \<open>Properties of the main loop\<close>

lemma example_state_init:
  "main_init example_settings OrbitCamera_new True True True True [WM_SIZE 0x02580320] 1000 0
     = Inr (Inr example_state)"
  by (simp add: example_state_def main_init_def example_settings_def Let_def LOWORD_def HIWORD_def
      ResizeSwapChain_def workload_def set_swap_chain_def)

lemma example_state_reachable: "reachable example_state"
  by (rule reachable.enter [OF example_state_init])

lemmas eval_defs =
  example_state_def example_state_10MHz_def example_frames_def
  example_input_def example_settings_def main_init_def
  tick_def recreate_swap_chains_def ProcessInertia_def wait_on_gpu_def get_time_delta_def
  update_gui_def render_def frame_lock_wait_def all_done_def rawFrameTime_def deltaMs_def
  ResizeSwapChain_def ReleaseSwapChain_def WaitForReadyToRender_def Render_def
  workload_def set_swap_chain_def active_def emit_def set_d3d12_def
  LOWORD_def HIWORD_def key_1_def key_2_def key_I_def key_M_def key_S_def key_V_def
  VK_SPACE_def VK_ESCAPE_def VK_RETURN_def f_0_2_def f_0_8_def f_0_07_def XM_PIDIV2_def
  summary_file_def series_file_def averageFPS_def round_defs

lemma dbl_abs_le: "\<bar>dbl x\<bar> \<le> 2 * \<bar>x\<bar>"
proof -
  define A where "A = \<bar>x\<bar>"
  define d where "d = \<bar>dbl x - x\<bar>"
  have "dbl x = (dbl x - x) + x" by simp
  then have "\<bar>dbl x\<bar> \<le> d + A"
    unfolding d_def A_def by (metis abs_triangle_ineq)
  moreover have "d \<le> A / 2 ^ 53"
    unfolding d_def A_def by (rule dbl_error)
  moreover have "0 \<le> A" by (simp add: A_def)
  ultimately show ?thesis unfolding A_def [symmetric] by simp
qed

lemma dbl_weight: "dbl (1 - f_0_2) = 1 - f_0_2"
  by (simp add: f_0_2_def round_defs)

lemma smoothing_error:
  "\<bar>dbl (dbl a + dbl c) - (a + c)\<bar> \<le> 3 * (\<bar>a\<bar> + \<bar>c\<bar>) / 2 ^ 53"
proof -
  define A where "A = \<bar>a\<bar>"
  define C where "C = \<bar>c\<bar>"
  define S where "S = \<bar>dbl a + dbl c\<bar>"
  define d1 where "d1 = \<bar>dbl (dbl a + dbl c) - (dbl a + dbl c)\<bar>"
  define d2 where "d2 = \<bar>dbl a - a\<bar>"
  define d3 where "d3 = \<bar>dbl c - c\<bar>"
  define E where "E = \<bar>dbl (dbl a + dbl c) - (a + c)\<bar>"
  have "S \<le> \<bar>dbl a\<bar> + \<bar>dbl c\<bar>"
    unfolding S_def by (rule abs_triangle_ineq)
  also have "\<dots> \<le> 2 * A + 2 * C"
    unfolding A_def C_def by (rule add_mono [OF dbl_abs_le dbl_abs_le])
  finally have S: "S \<le> 2 * A + 2 * C" .
  have 1: "d1 \<le> S / 2 ^ 53"
    unfolding d1_def S_def by (rule dbl_error)
  have 2: "d2 \<le> A / 2 ^ 53"
    unfolding d2_def A_def by (rule dbl_error)
  have 3: "d3 \<le> C / 2 ^ 53"
    unfolding d3_def C_def by (rule dbl_error)
  have "dbl (dbl a + dbl c) - (a + c)
      = (dbl (dbl a + dbl c) - (dbl a + dbl c)) + ((dbl a - a) + (dbl c - c))"
    by simp
  then have "E \<le> d1 + \<bar>(dbl a - a) + (dbl c - c)\<bar>"
    unfolding E_def d1_def by (metis abs_triangle_ineq)
  moreover have "\<bar>(dbl a - a) + (dbl c - c)\<bar> \<le> d2 + d3"
    unfolding d2_def d3_def by (rule abs_triangle_ineq)
  ultimately have "E \<le> d1 + d2 + d3" by simp
  with S 1 2 3 have "E \<le> 3 * (A + C) / 2 ^ 53" by simp
  then show ?thesis by (simp only: E_def A_def C_def)
qed

text \<open>
  C7, as the source has it: after an iteration with raw frame time \<open>r\<close> and previous
  smoothed frame time \<open>s\<close>, the smoothed frame time is \<open>a * r + (1 - a) * s\<close> in double
  arithmetic, each product and the sum rounded to the nearest double, where \<open>a\<close> is
  the value of the literal \<open>0.2f\<close>, which is \<open>13421773 / 67108864\<close>. The result is
  within 3 relative rounding errors of the exact value of that expression.
\<close>

theorem smoothed_frame_time:
  assumes "tick s inp = Continue s' \<or> tick s inp = ReturnCloseAfter s'"
    and "perfCounterFreq s \<noteq> 0"
  shows "frameTime s'
           = dbl (dbl (f_0_2 * rawFrameTime (count inp) s) + dbl ((1 - f_0_2) * frameTime s))
       \<and> \<bar>frameTime s' - (f_0_2 * rawFrameTime (count inp) s + (1 - f_0_2) * frameTime s)\<bar>
           \<le> 3 * (\<bar>f_0_2 * rawFrameTime (count inp) s\<bar> + \<bar>(1 - f_0_2) * frameTime s\<bar>) / 2 ^ 53"
proof -
  from tick_fields [OF assms(1)] have
    "frameTime s'
       = dbl (dbl (f_0_2 * rawFrameTime (count inp) s) + dbl (dbl (1 - f_0_2) * frameTime s))"
    by blast
  then have eq: "frameTime s'
       = dbl (dbl (f_0_2 * rawFrameTime (count inp) s) + dbl ((1 - f_0_2) * frameTime s))"
    by (simp only: dbl_weight)
  show ?thesis
    unfolding eq using smoothing_error by blast
qed

theorem smoothed_frame_time_witness:
  "tick example_state (example_input [] 16 16)
     = Continue (the (final_state (tick example_state (example_input [] 16 16))))
   \<and> perfCounterFreq example_state \<noteq> 0
   \<and> rawFrameTime 16 example_state = 1152921504606847 / 72057594037927936
   \<and> frameTime example_state = 0
   \<and> frameTime (the (final_state (tick example_state (example_input [] 16 16))))
       = 922337217429373 / 288230376151711744"
  using smoothed_frame_time [of example_state "example_input [] 16 16"
      "the (final_state (tick example_state (example_input [] 16 16)))"]
  by (simp add: eval_defs)

text \<open>
  C7 as the claim words it fails: with \<open>r = 1\<close> and \<open>s = 0\<close> the smoothed frame time
  is the value of \<open>0.2f\<close> and not \<open>0.2 * 1 + 0.8 * 0\<close>.
\<close>

theorem smoothed_frame_time_counterexample:
  "rawFrameTime 1000 example_state = 1
   \<and> frameTime example_state = 0
   \<and> map_option frameTime (final_state (tick example_state (example_input [] 1000 1000)))
       \<noteq> Some (0.2 * 1 + 0.8 * 0)"
  by (simp add: eval_defs)



text \<open>
  C6 as the claim words it fails: with a counter of 10 MHz, seven frames that end at the
  readings below take 10000000 counts together, which is 1000 ms of raw time, and no
  sample is appended: the sum of the seven rounded frame times in \<open>timeInterval\<close> is
  below 1000.
\<close>

theorem time_series_sample_emission_counterexample:
  "main_loop example_state_10MHz
       (example_frames [1428571, 2857142, 4285713, 5714284, 7142855, 8571426, 10000000])
     = Continue (the (final_state (main_loop example_state_10MHz
         (example_frames [1428571, 2857142, 4285713, 5714284, 7142855, 8571426, 10000000]))))
   \<and> 0 < closeAfterSeconds (gSettings example_state_10MHz)
   \<and> fpsHistoryVector example_state_10MHz = []
   \<and> real (unat (10000000 - lastPerfCount example_state_10MHz))
         / real (unat (perfCounterFreq example_state_10MHz)) * 1000 = 1000
   \<and> fpsHistoryVector (the (final_state (main_loop example_state_10MHz
         (example_frames [1428571, 2857142, 4285713, 5714284, 7142855, 8571426, 10000000]))))
       = []
   \<and> timeInterval (the (final_state (main_loop example_state_10MHz
         (example_frames [1428571, 2857142, 4285713, 5714284, 7142855, 8571426, 10000000]))))
       = 4398046511103999 / 4398046511104"
  by (simp add: eval_defs)




text \<open>
  C10: a \<open>WM_SIZE\<close> message whose width or height is zero leaves the whole state as it
  is: settings, camera, swap chains and everything else.
\<close>

theorem WM_SIZE_minimized_ignored:
  assumes "LOWORD lParam = 0 \<or> HIWORD lParam = 0"
  shows "WindowProc s (WM_SIZE lParam) = Inr s"
  using assms by (auto simp: Let_def)

theorem WM_SIZE_minimized_ignored_witness:
  "(LOWORD 0x02580000 = 0 \<or> HIWORD 0x02580000 = 0)
   \<and> HIWORD 0x02580000 = 600
   \<and> WindowProc example_state (WM_SIZE 0x02580000) = Inr example_state"
  using WM_SIZE_minimized_ignored [of "0x02580000" example_state]
  by (simp add: LOWORD_def HIWORD_def)

text \<open>
  C9: the start of \<open>main\<close> leaves the flag on a backend whose workload was constructed;
  at the head of every iteration the flag selects a constructed backend, it still does
  after any sequence of messages handled from there, and neither the window procedure,
  the backend switch, the wait nor the render call of the iteration goes through a null
  workload pointer.
\<close>

theorem active_backend_constructed:
  shows "(main_init st cam d3d11Available d3d12Available factory4 warpAdapter sent freq cnt = Inr r
            \<longrightarrow> (\<exists>s0. r = Inr s0 \<and> backend_ok s0))
       \<and> (reachable s \<longrightarrow>
            backend_ok s
          \<and> (case PeekMessage_loop s ms of
                Drained s1 \<Rightarrow> backend_ok s1
              | QuitSeen code s1 \<Rightarrow> backend_ok s1
              | DrainFailed e \<Rightarrow> False)
          \<and> (\<forall>e. tick s inp \<noteq> Failed e)
          \<and> (\<forall>s'. final_state (tick s inp) = Some s' \<longrightarrow> backend_ok s'))"
proof (intro conjI impI)
  assume "main_init st cam d3d11Available d3d12Available factory4 warpAdapter sent freq cnt = Inr r"
  from main_init_Inr [OF this] show "\<exists>s0. r = Inr s0 \<and> backend_ok s0" by blast
next
  assume "reachable s"
  then have inv: "loop_invariant s" by (rule reachable_invariant)
  then show ok: "backend_ok s" by (simp add: loop_invariant_def)
  from drain_ok [OF ok] show "case PeekMessage_loop s ms of
                Drained s1 \<Rightarrow> backend_ok s1
              | QuitSeen code s1 \<Rightarrow> backend_ok s1
              | DrainFailed e \<Rightarrow> False" .
  from tick_never_fails [OF ok] show "\<forall>e. tick s inp \<noteq> Failed e" by blast
  from tick_invariant(1) [OF inv] show "\<forall>s'. final_state (tick s inp) = Some s' \<longrightarrow> backend_ok s'"
    by blast
qed

theorem active_backend_constructed_witness:
  "main_init example_settings OrbitCamera_new True True True True [WM_SIZE 0x02580320] 1000 0
     = Inr (Inr example_state)
   \<and> reachable example_state
   \<and> backend_ok example_state
   \<and> (case PeekMessage_loop example_state [WM_KEYDOWN key_1 0] of
        Drained s1 \<Rightarrow> backend_ok s1 \<and> \<not> d3d12 (gSettings s1)
      | QuitSeen code s1 \<Rightarrow> False
      | DrainFailed e \<Rightarrow> False)
   \<and> final_state (tick example_state (example_input [WM_KEYDOWN key_1 0] 16 16)) \<noteq> None"
  using active_backend_constructed [of example_settings OrbitCamera_new True True True True
      "[WM_SIZE 0x02580320]" 1000 0 "Inr example_state" example_state "[WM_KEYDOWN key_1 0]"
      "example_input [WM_KEYDOWN key_1 0] 16 16"]
    example_state_init example_state_reachable
  by (simp add: eval_defs backend_ok_def)

text \<open>
  C4: at the head of every iteration, no render call made so far or in the iteration
  went to a backend whose swap chain had been released and not created again. In an
  iteration where the flag after the message loop differs from the flag before it, the
  calls after the message loop are: release of the swap chain of the backend selected
  before, creation of the swap chain of the backend selected now at the current render
  resolution, the wait of D3D12 when that is the one selected, and then the render call
  of the backend selected now on the swap chain just created; the iteration makes no
  other render call.
\<close>

theorem backend_switch_before_render:
  assumes "reachable s"
  shows "(\<forall>s'. final_state (tick s inp) = Some s' \<longrightarrow>
            (\<forall>b. (b, ReleasedSwapChain) \<notin> set (render_calls (events s'))))
       \<and> (\<forall>s1. PeekMessage_loop s (messages inp) = Drained s1
                 \<and> d3d12 (gSettings s1) \<noteq> d3d12 (gSettings s) \<longrightarrow>
            (\<exists>s' pre t post.
               (tick s inp = Continue s' \<or> tick s inp = ReturnCloseAfter s')
             \<and> events s1 = events s @ pre \<and> render_calls pre = []
             \<and> events s' = events s1
                 @ [ReleaseSwapChain_call (active s),
                    ResizeSwapChain_call (active s1)
                      (renderWidth (gSettings s1)) (renderHeight (gSettings s1))]
                 @ (if d3d12 (gSettings s1) then [WaitForReadyToRender_call] else [])
                 @ [Render_call (active s1)
                      (SwapChain (renderWidth (gSettings s1)) (renderHeight (gSettings s1))) t]
                 @ post
             \<and> render_calls post = []
             \<and> workload (active s) s' = Some ReleasedSwapChain
             \<and> workload (active s1) s'
                 = Some (SwapChain (renderWidth (gSettings s1)) (renderHeight (gSettings s1)))))"
proof (intro conjI allI impI)
  from assms have inv: "loop_invariant s" by (rule reachable_invariant)
  then have ok: "backend_ok s" by (simp add: loop_invariant_def)
  {
    fix s' b
    assume "final_state (tick s inp) = Some s'"
    from tick_invariant(2) [OF inv this]
    show "(b, ReleasedSwapChain) \<notin> set (render_calls (events s'))" by blast
  }
  {
    fix s1
    assume a: "PeekMessage_loop s (messages inp) = Drained s1
                 \<and> d3d12 (gSettings s1) \<noteq> d3d12 (gSettings s)"
    then have d: "PeekMessage_loop s (messages inp) = Drained s1"
      and ch: "d3d12 (gSettings s) \<noteq> d3d12 (gSettings s1)" by auto
    from tick_succeeds [OF ok d] obtain s' where
      t: "tick s inp = Continue s' \<or> tick s inp = ReturnCloseAfter s'" by blast
    from tick_fields [OF t] d obtain sc where
      eff: "message_effect s s1"
      and wl: "(if d3d12 (gSettings s) \<noteq> d3d12 (gSettings s1)
        then workload (active s1) s'
               = Some (SwapChain (renderWidth (gSettings s1)) (renderHeight (gSettings s1)))
           \<and> workload (active s) s' = Some ReleasedSwapChain
        else (\<forall>b. workload b s' = workload b s1))"
      and sc: "workload (active s1) s' = Some sc"
      and ev: "events s' = events s1
         @ (if d3d12 (gSettings s) \<noteq> d3d12 (gSettings s1)
            then [ReleaseSwapChain_call (active s),
                  ResizeSwapChain_call (active s1)
                    (renderWidth (gSettings s1)) (renderHeight (gSettings s1))]
            else [])
         @ (if d3d12 (gSettings s1) then [WaitForReadyToRender_call] else [])
         @ [Render_call (active s1) sc (flt (frameTime s'))]
         @ (if lockFrameRate (gSettings s1)
                 \<and> deltaMs (count inp) (afterRenderCount inp) s > 1
            then [Sleep_call (nat \<lfloor>deltaMs (count inp) (afterRenderCount inp) s\<rfloor>)] else [])
         @ (if closeAfterSeconds (gSettings s) > 0 \<and> elapsedTime s' > closeAfterSeconds (gSettings s)
            then [SendMessage_WM_CLOSE] else [])"
      by auto
    from eff obtain pre where pre: "events s1 = events s @ pre" "render_calls pre = []"
      by (auto simp: message_effect_def)
    define post where "post =
           (if lockFrameRate (gSettings s1)
                 \<and> deltaMs (count inp) (afterRenderCount inp) s > 1
            then [Sleep_call (nat \<lfloor>deltaMs (count inp) (afterRenderCount inp) s\<rfloor>)] else [])
         @ (if closeAfterSeconds (gSettings s) > 0 \<and> elapsedTime s' > closeAfterSeconds (gSettings s)
            then [SendMessage_WM_CLOSE] else [])"
    from wl sc ch have sc': "sc = SwapChain (renderWidth (gSettings s1)) (renderHeight (gSettings s1))"
      and rel: "workload (active s) s' = Some ReleasedSwapChain"
      by auto
    have "events s' = events s1
                 @ [ReleaseSwapChain_call (active s),
                    ResizeSwapChain_call (active s1)
                      (renderWidth (gSettings s1)) (renderHeight (gSettings s1))]
                 @ (if d3d12 (gSettings s1) then [WaitForReadyToRender_call] else [])
                 @ [Render_call (active s1)
                      (SwapChain (renderWidth (gSettings s1)) (renderHeight (gSettings s1)))
                      (flt (frameTime s'))]
                 @ post"
      unfolding ev post_def using ch by (simp add: sc')
    moreover have "render_calls post = []"
      by (simp add: post_def)
    ultimately show "\<exists>s' pre t post.
               (tick s inp = Continue s' \<or> tick s inp = ReturnCloseAfter s')
             \<and> events s1 = events s @ pre \<and> render_calls pre = []
             \<and> events s' = events s1
                 @ [ReleaseSwapChain_call (active s),
                    ResizeSwapChain_call (active s1)
                      (renderWidth (gSettings s1)) (renderHeight (gSettings s1))]
                 @ (if d3d12 (gSettings s1) then [WaitForReadyToRender_call] else [])
                 @ [Render_call (active s1)
                      (SwapChain (renderWidth (gSettings s1)) (renderHeight (gSettings s1))) t]
                 @ post
             \<and> render_calls post = []
             \<and> workload (active s) s' = Some ReleasedSwapChain
             \<and> workload (active s1) s'
                 = Some (SwapChain (renderWidth (gSettings s1)) (renderHeight (gSettings s1)))"
      using t pre rel sc sc' by blast
  }
qed

theorem backend_switch_before_render_witness:
  "reachable example_state
   \<and> d3d12 (gSettings example_state)
   \<and> (case PeekMessage_loop example_state [WM_KEYDOWN key_1 0] of
         Drained s1 \<Rightarrow> \<not> d3d12 (gSettings s1) | QuitSeen code s1 \<Rightarrow> False | DrainFailed e \<Rightarrow> False)
   \<and> events (the (final_state (tick example_state (example_input [WM_KEYDOWN key_1 0] 16 16))))
       = [ResizeSwapChain_call D3D12 800 600, ReleaseSwapChain_call D3D12,
          ResizeSwapChain_call D3D11 800 600,
          Render_call D3D11 (SwapChain 800 600) (1717987 / 536870912)]
   \<and> gWorkloadD3D12 (the (final_state (tick example_state (example_input [WM_KEYDOWN key_1 0] 16 16))))
       = Some ReleasedSwapChain"
  using backend_switch_before_render [of example_state "example_input [WM_KEYDOWN key_1 0] 16 16"]
    example_state_reachable
  by (simp add: eval_defs)



















end
